theory Spec2Isabelle
  imports Complex_Main "HOL-Library.Word"
begin

unbundle bit_operations_syntax

section \<open>The termination monitor (package terminator)\<close>

subsection \<open>trackingGauge\<close>

text \<open>
  \<^verbatim>\<open>type trackingGauge struct { gauge tally.Gauge; value uint32 }\<close>.
  The tally gauge is modelled by the last value passed to \<^verbatim>\<open>Update\<close>. The value is a
  \<^verbatim>\<open>float64\<close> obtained from a \<^verbatim>\<open>uint32\<close>; every 32-bit value is exactly
  representable there, so the conversion is the embedding of the naturals into the reals.
  The field \<^verbatim>\<open>value\<close> is called \<open>val\<close> here.
\<close>

type_synonym tally_Gauge = real

definition Update :: "tally_Gauge \<Rightarrow> real \<Rightarrow> tally_Gauge" where
  "Update g v = v"

definition float64 :: "32 word \<Rightarrow> real" where
  "float64 v = real (unat v)"

record trackingGauge =
  gauge :: tally_Gauge
  val :: "32 word"

text \<open>\<^verbatim>\<open>atomic.AddUint32(addr, delta)\<close> stores the wrapped sum and returns it.\<close>

definition AddUint32 :: "32 word \<Rightarrow> 32 word \<Rightarrow> 32 word" where
  "AddUint32 v delta = v + delta"

definition inc :: "trackingGauge \<Rightarrow> trackingGauge" where
  "inc t = (let v = AddUint32 (val t) 1 in t\<lparr>val := v, gauge := Update (gauge t) (float64 v)\<rparr>)"

text \<open>\<^verbatim>\<open>^uint32(0)\<close> is the bitwise complement of zero.\<close>

definition dec :: "trackingGauge \<Rightarrow> trackingGauge" where
  "dec t = (let v = AddUint32 (val t) (NOT 0) in t\<lparr>val := v, gauge := Update (gauge t) (float64 v)\<rparr>)"

subsection \<open>Experiments\<close>

text \<open>
  The message \<^verbatim>\<open>Experiment\<close> of the experimentation API: a \<^verbatim>\<open>fixed64\<close> id, an
  optional \<^verbatim>\<open>Any\<close> payload and two optional timestamps. The field \<^verbatim>\<open>Id\<close> is
  called \<open>Id'\<close> (HOL has a constant \<open>Id\<close>).
\<close>

record Any =
  TypeUrl :: string
  Value :: string

record Timestamp =
  Seconds :: int
  Nanos :: int

record Experiment =
  Id' :: "64 word"
  Config :: "Any option"
  StartTime :: "Timestamp option"
  EndTime :: "Timestamp option"

text \<open>
  \<^verbatim>\<open>time.Time\<close> is an instant, here the nanoseconds since the Unix epoch.
  \<^verbatim>\<open>ptypes.Timestamp\<close> returns \<^verbatim>\<open>time.Unix(0, 0)\<close> for a nil timestamp and
  \<^verbatim>\<open>time.Unix(ts.Seconds, ts.Nanos)\<close> otherwise; its second result (the validation error)
  is discarded by the monitor.
\<close>

type_synonym time = int

definition time_Unix :: "int \<Rightarrow> int \<Rightarrow> time" where
  "time_Unix sec nsec = sec * 1000000000 + nsec"

definition ptypes_Timestamp :: "Timestamp option \<Rightarrow> time" where
  "ptypes_Timestamp ts = (case ts of None \<Rightarrow> time_Unix 0 0 | Some t \<Rightarrow> time_Unix (Seconds t) (Nanos t))"

subsection \<open>Errors, panics and the collaborators\<close>

text \<open>
  A Go \<^verbatim>\<open>error\<close> value is nil (\<open>None\<close>) or carries the text that \<^verbatim>\<open>Error()\<close> returns.
  A call into code the monitor does not own either returns or panics.
\<close>

datatype error = errorString string

fun Error :: "error \<Rightarrow> string" where
  "Error (errorString s) = s"

datatype 'a outcome = Returns 'a | Panics string

fun is_Panics :: "'a outcome \<Rightarrow> bool" where
  "is_Panics (Panics p) = True"
| "is_Panics (Returns r) = False"

text \<open>
  \<^verbatim>\<open>type TerminationCriteria interface { ShouldTerminate(experimentStarted time.Time, config interface{}) error }\<close>:
  one method. What a call returns may depend on more than its two arguments: an
  implementation can read the clock or keep state of its own. The first argument \<open>'v\<close> of the
  model is what the calls of one tick of an inner loop observe of that; every tick comes with
  such a value, and the criteria of a monitor are functions of it.
\<close>

type_synonym 'v TerminationCriteria = "'v \<Rightarrow> time \<Rightarrow> Experiment \<Rightarrow> error option outcome"

datatype GetExperimentsRequest_Status = STATUS_UNSPECIFIED | STATUS_RUNNING

text \<open>
  The two methods of \<^verbatim>\<open>experimentstore.Storer\<close> that the monitor calls, over a store
  state \<open>'s\<close>: \<open>GetExperiments\<close> reads it, \<open>TerminateExperiment\<close> returns its error and the
  new state.
\<close>

record 's Storer =
  GetExperiments :: "'s \<Rightarrow> string list \<Rightarrow> GetExperimentsRequest_Status \<Rightarrow> error + Experiment list"
  TerminateExperiment :: "'s \<Rightarrow> 64 word \<Rightarrow> string \<Rightarrow> error option \<times> 's"

text \<open>The fields a \<^verbatim>\<open>zap\<close> log line carries here, and a line of \<^verbatim>\<open>Errorw\<close>.\<close>

datatype log_field = F_err error | F_id "64 word" | F_strings "string list"

datatype log_entry = Errorw string "(string \<times> log_field) list"

text \<open>The calls the monitor makes on its collaborators, in order (a ghost trace).\<close>

datatype call =
    Call_ShouldTerminate time Experiment
  | Call_TerminateExperiment "64 word" string "error option"

subsection \<open>The monitor\<close>

text \<open>
  \<^verbatim>\<open>type monitor struct\<close>: the fields that are read only. What the monitor writes to (the
  store behind the \<^verbatim>\<open>Storer\<close>, the logger, the gauge and the counter) is the \<open>world\<close>;
  the counter holds the sum of its \<^verbatim>\<open>Inc\<close> deltas.
\<close>

record ('s, 'v) monitor =
  store :: "'s Storer"
  enabledConfigTypes :: "string list"
  criterias :: "'v TerminationCriteria list"
  outerLoopInterval :: int
  perExperimentCheckInterval :: int

record 's world =
  store_state :: 's
  logged :: "log_entry list"
  activeMonitoringRoutines :: trackingGauge
  terminationCount :: int
  calls :: "call list"

subsection \<open>monitorSingleExperiment\<close>

text \<open>
  The loop over \<^verbatim>\<open>m.criterias\<close> of one tick (lines 124 to 137), where the criteria
  observe \<open>v\<close>. It has no \<^verbatim>\<open>recover\<close>, so a panic of \<^verbatim>\<open>ShouldTerminate\<close> leaves
  the loop with what was done before it.
\<close>

datatype 's tick_result = Completed "'s world" bool | Panicked string "'s world"

fun criterias_loop ::
  "('s, 'v) monitor \<Rightarrow> Experiment \<Rightarrow> 'v \<Rightarrow> 'v TerminationCriteria list \<Rightarrow> 's world \<Rightarrow> bool
     \<Rightarrow> 's tick_result" where
  "criterias_loop m e v [] w terminated = Completed w terminated"
| "criterias_loop m e v (c # cs) w terminated =
     (let tt = ptypes_Timestamp (StartTime e);
          w1 = w\<lparr>calls := calls w @ [Call_ShouldTerminate tt e]\<rparr>
      in case c v tt e of
           Panics p \<Rightarrow> Panicked p w1
         | Returns None \<Rightarrow> criterias_loop m e v cs w1 terminated
         | Returns (Some err) \<Rightarrow>
             (case TerminateExperiment (store m) (store_state w1) (Id' e) (Error err) of
                (Some err', s') \<Rightarrow>
                  criterias_loop m e v cs
                    (w1\<lparr>store_state := s',
                        calls := calls w1 @ [Call_TerminateExperiment (Id' e) (Error err) (Some err')],
                        logged := logged w1 @ [Errorw ''failed to terminate experiment''
                                    [(''err'', F_err err'), (''experimentId'', F_id (Id' e))]]\<rparr>)
                    terminated
              | (None, s') \<Rightarrow>
                  criterias_loop m e v cs
                    (w1\<lparr>store_state := s',
                        calls := calls w1 @ [Call_TerminateExperiment (Id' e) (Error err) None],
                        logged := logged w1 @ [Errorw ''terminated experiment''
                                    [(''experimentId'', F_id (Id' e))]],
                        terminationCount := terminationCount w1 + 1\<rparr>)
                    True))"

text \<open>The branch \<^verbatim>\<open>case <-ticker.C\<close>: nothing when \<^verbatim>\<open>terminated\<close> is set.\<close>

definition ticker_case ::
  "('s, 'v) monitor \<Rightarrow> Experiment \<Rightarrow> 'v \<Rightarrow> 's world \<Rightarrow> bool \<Rightarrow> 's tick_result" where
  "ticker_case m e v w terminated =
     (if terminated then Completed w terminated else criterias_loop m e v (criterias m) w terminated)"

text \<open>
  The goroutine running \<^verbatim>\<open>monitorSingleExperiment\<close>: inside the loop with its local
  \<^verbatim>\<open>terminated\<close>, returned, or unwinding a panic. Each round of the \<^verbatim>\<open>for\<close> loop
  takes one case of the \<^verbatim>\<open>select\<close>; the loop is run over the cases taken. A tick
  comes with what the criteria observe when they are called on it.
\<close>

datatype routine = Running bool | Returned | Panicking string

datatype 'v select_case = TickerC 'v | CtxDone

fun monitorSingleExperiment_select ::
  "('s, 'v) monitor \<Rightarrow> Experiment \<Rightarrow> routine \<times> 's world \<Rightarrow> 'v select_case \<Rightarrow> routine \<times> 's world" where
  "monitorSingleExperiment_select m e (Running terminated, w) (TickerC v) =
     (case ticker_case m e v w terminated of
        Completed w' terminated' \<Rightarrow> (Running terminated', w')
      | Panicked p w' \<Rightarrow> (Panicking p, w'))"
| "monitorSingleExperiment_select m e (Running terminated, w) CtxDone = (Returned, w)"
| "monitorSingleExperiment_select m e (Returned, w) c = (Returned, w)"
| "monitorSingleExperiment_select m e (Panicking p, w) c = (Panicking p, w)"

definition monitorSingleExperiment ::
  "('s, 'v) monitor \<Rightarrow> Experiment \<Rightarrow> 'v select_case list \<Rightarrow> 's world \<Rightarrow> routine \<times> 's world" where
  "monitorSingleExperiment m e cases w = foldl (monitorSingleExperiment_select m e) (Running False, w) cases"

subsection \<open>Run and monitorNewExperiments\<close>

text \<open>
  A goroutine started by \<^verbatim>\<open>monitorNewExperiments\<close>: the id under which its cancel
  function is stored, its context, the value of \<^verbatim>\<open>e\<close> that its call of
  \<^verbatim>\<open>monitorSingleExperiment\<close> received, and where that call stands.
\<close>

record goroutine =
  spawned_for :: "64 word"
  ctx :: nat
  arg_e :: Experiment
  routine_state :: routine

text \<open>
  The process after \<^verbatim>\<open>Run\<close>: the world, the outer loop's map
  \<^verbatim>\<open>trackedExperiments\<close> (an id is a key at most once; the cancel function of a context
  is written as the context), the contexts whose cancel function has been called, the
  goroutines started so far, whether the outer loop has returned, and whether an unrecovered
  panic has ended the process.
\<close>

record 's system =
  world :: "'s world"
  trackedExperiments :: "(64 word \<times> nat) list"
  canceled :: "nat set"
  goroutines :: "goroutine list"
  outer_returned :: bool
  crashed :: bool

definition Run :: "'s world \<Rightarrow> 's system" where
  "Run w = \<lparr>world = w, trackedExperiments = [], canceled = {}, goroutines = [],
            outer_returned = False, crashed = False\<rparr>"

text \<open>
  The loop of \<^verbatim>\<open>monitorNewExperiments\<close>. The function literal passed to \<^verbatim>\<open>go\<close>
  names the range variable \<^verbatim>\<open>e\<close>, and it reads it only when the new goroutine runs its
  call of \<^verbatim>\<open>monitorSingleExperiment\<close>. With one variable for the whole loop (Go before
  1.22) the loop may have stored later elements of \<^verbatim>\<open>es\<close> in it by then. The first
  argument lists, for each goroutine started, how many further elements the loop has moved on
  by when the goroutine reads \<^verbatim>\<open>e\<close> (0, also when the list has run out: the goroutine
  reads its own element); the variable keeps the last element once the loop has ended.
\<close>

fun monitorNewExperiments_range ::
  "nat list \<Rightarrow> Experiment list \<Rightarrow> 64 word set \<Rightarrow> 's system \<Rightarrow> 64 word set \<times> 's system" where
  "monitorNewExperiments_range sched [] activeExperiments s = (activeExperiments, s)"
| "monitorNewExperiments_range sched (x # es) activeExperiments s =
     (let activeExperiments' = insert (Id' x) activeExperiments in
      if map_of (trackedExperiments s) (Id' x) = None then
        let c = length (goroutines s);
            d = (case sched of [] \<Rightarrow> 0 | d # ds \<Rightarrow> d);
            read_e = (x # es) ! min d (length es);
            s' = s\<lparr>trackedExperiments := trackedExperiments s @ [(Id' x, c)],
                   world := (world s)\<lparr>activeMonitoringRoutines := inc (activeMonitoringRoutines (world s))\<rparr>,
                   goroutines := goroutines s @
                     [\<lparr>spawned_for = Id' x, ctx = c, arg_e = read_e, routine_state = Running False\<rparr>]\<rparr>
        in monitorNewExperiments_range (tl sched) es activeExperiments' s'
      else monitorNewExperiments_range sched es activeExperiments' s)"

definition monitorNewExperiments ::
  "nat list \<Rightarrow> Experiment list \<Rightarrow> 's system \<Rightarrow> 64 word set \<times> 's system" where
  "monitorNewExperiments sched es s = monitorNewExperiments_range sched es {} s"

text \<open>
  The second loop of a tick of \<^verbatim>\<open>Run\<close>: every tracked id that is not active has its
  cancel function called and its entry deleted.
\<close>

definition cancel_inactive :: "64 word set \<Rightarrow> 's system \<Rightarrow> 's system" where
  "cancel_inactive activeExperiments s =
     s\<lparr>canceled := canceled s \<union> set (map snd (filter (\<lambda>p. fst p \<notin> activeExperiments) (trackedExperiments s))),
       trackedExperiments := filter (\<lambda>p. fst p \<in> activeExperiments) (trackedExperiments s)\<rparr>"

text \<open>The branch \<^verbatim>\<open>case <-ticker.C\<close> of the outer loop.\<close>

definition Run_ticker_case :: "('s, 'v) monitor \<Rightarrow> nat list \<Rightarrow> 's system \<Rightarrow> 's system" where
  "Run_ticker_case m sched s =
     (case GetExperiments (store m) (store_state (world s)) (enabledConfigTypes m) STATUS_RUNNING of
        Inl err \<Rightarrow>
          s\<lparr>world := (world s)\<lparr>logged := logged (world s) @
               [Errorw ''failed to retrieve experiments from experiment store''
                  [(''err'', F_err err), (''enableConfigTypes'', F_strings (enabledConfigTypes m))]]\<rparr>\<rparr>
      | Inr es \<Rightarrow>
          (case monitorNewExperiments sched es s of
             (activeExperiments, s') \<Rightarrow> cancel_inactive activeExperiments s'))"

fun is_Running :: "routine \<Rightarrow> bool" where
  "is_Running (Running terminated) = True"
| "is_Running Returned = False"
| "is_Running (Panicking p) = False"

fun is_Panicking :: "routine \<Rightarrow> bool" where
  "is_Panicking (Panicking p) = True"
| "is_Panicking (Running terminated) = False"
| "is_Panicking Returned = False"

text \<open>
  One round of the loop of goroutine \<open>k\<close>. The case \<^verbatim>\<open><-ctx.Done()\<close> can be taken only
  once the context is canceled. The goroutine's function defers
  \<^verbatim>\<open>m.activeMonitoringRoutines.dec()\<close>, which runs when \<^verbatim>\<open>monitorSingleExperiment\<close>
  returns or panics; nothing recovers the panic, so it ends the process.
\<close>

definition goroutine_select ::
  "('s, 'v) monitor \<Rightarrow> nat \<Rightarrow> 'v select_case \<Rightarrow> 's system \<Rightarrow> 's system" where
  "goroutine_select m k c s =
     (let g = goroutines s ! k in
      if \<not> is_Running (routine_state g) \<or> (c = CtxDone \<and> ctx g \<notin> canceled s) then s
      else
        (case monitorSingleExperiment_select m (arg_e g) (routine_state g, world s) c of
           (r, w) \<Rightarrow>
             s\<lparr>world := (if is_Running r then w
                          else w\<lparr>activeMonitoringRoutines := dec (activeMonitoringRoutines w)\<rparr>),
               goroutines := (goroutines s)[k := g\<lparr>routine_state := r\<rparr>],
               crashed := is_Panicking r\<rparr>))"

text \<open>
  What can happen next in the process: the outer ticker fires (with the schedule of the
  goroutines it starts), the context given to \<^verbatim>\<open>Run\<close> is canceled, goroutine \<open>k\<close> takes
  a case of its \<^verbatim>\<open>select\<close>, or something else changes the store. A crashed process does
  nothing.
\<close>

datatype ('s, 'v) event =
    OuterTickerC "nat list"
  | RootCtxDone
  | Select nat "'v select_case"
  | StoreChanged "'s \<Rightarrow> 's"

fun step :: "('s, 'v) monitor \<Rightarrow> 's system \<Rightarrow> ('s, 'v) event \<Rightarrow> 's system" where
  "step m s (OuterTickerC sched) =
     (if crashed s \<or> outer_returned s then s else Run_ticker_case m sched s)"
| "step m s RootCtxDone = (if crashed s then s else s\<lparr>outer_returned := True\<rparr>)"
| "step m s (Select k c) =
     (if crashed s \<or> length (goroutines s) \<le> k then s else goroutine_select m k c s)"
| "step m s (StoreChanged f) =
     (if crashed s then s else s\<lparr>world := (world s)\<lparr>store_state := f (store_state (world s))\<rparr>\<rparr>)"

definition run :: "('s, 'v) monitor \<Rightarrow> ('s, 'v) event list \<Rightarrow> 's system \<Rightarrow> 's system" where
  "run m evs s = foldl (step m) s evs"

text \<open>
  The goroutines that are inside \<^verbatim>\<open>monitorSingleExperiment\<close> for an id, and those of
  them whose context has not been canceled.
\<close>

definition live_for :: "64 word \<Rightarrow> 's system \<Rightarrow> goroutine list" where
  "live_for i s = filter (\<lambda>g. spawned_for g = i \<and> is_Running (routine_state g)) (goroutines s)"

definition live_uncanceled_for :: "64 word \<Rightarrow> 's system \<Rightarrow> goroutine list" where
  "live_uncanceled_for i s =
     filter (\<lambda>g. spawned_for g = i \<and> is_Running (routine_state g) \<and> ctx g \<notin> canceled s) (goroutines s)"

text \<open>
  \<^verbatim>\<open>NewTestMonitor\<close>: both intervals are the duration 1. The logger and the stats scope
  it is given are part of the world the monitor runs in.
\<close>

definition NewTestMonitor ::
  "'s Storer \<Rightarrow> string list \<Rightarrow> 'v TerminationCriteria list \<Rightarrow> ('s, 'v) monitor" where
  "NewTestMonitor st types cs =
     \<lparr>store = st, enabledConfigTypes = types, criterias = cs,
      outerLoopInterval = 1, perExperimentCheckInterval = 1\<rparr>"

subsection \<open>Reading the trace\<close>

text \<open>
  What a trace holds: the \<open>(id, reason)\<close> of its \<^verbatim>\<open>TerminateExperiment\<close> calls and their
  results (\<open>None\<close> is success); and the calls that a run has added to a trace.
\<close>

fun terminations :: "call list \<Rightarrow> (64 word \<times> string) list" where
  "terminations [] = []"
| "terminations (Call_TerminateExperiment i reason r # cs) = (i, reason) # terminations cs"
| "terminations (Call_ShouldTerminate tt e # cs) = terminations cs"

fun terminate_results :: "call list \<Rightarrow> error option list" where
  "terminate_results [] = []"
| "terminate_results (Call_TerminateExperiment i reason r # cs) = r # terminate_results cs"
| "terminate_results (Call_ShouldTerminate tt e # cs) = terminate_results cs"

definition new_calls :: "'s world \<Rightarrow> 's world \<Rightarrow> call list" where
  "new_calls w w' = drop (length (calls w)) (calls w')"

text \<open>
  The errors that the criteria of a list return for an experiment when they observe \<open>v\<close>, in
  order, up to the first criterion that panics.
\<close>

fun fired :: "'v \<Rightarrow> time \<Rightarrow> Experiment \<Rightarrow> 'v TerminationCriteria list \<Rightarrow> error list" where
  "fired v tt e [] = []"
| "fired v tt e (c # cs) =
     (case c v tt e of
        Panics p \<Rightarrow> []
      | Returns None \<Rightarrow> fired v tt e cs
      | Returns (Some err) \<Rightarrow> err # fired v tt e cs)"

text \<open>The ticks among the cases that a loop has taken, each as what the criteria observe on it.\<close>

fun ticks :: "'v select_case list \<Rightarrow> 'v list" where
  "ticks [] = []"
| "ticks (TickerC v # cs) = v # ticks cs"
| "ticks (CtxDone # cs) = ticks cs"

text \<open>
  The line that the loop logs after a \<^verbatim>\<open>TerminateExperiment\<close> call for id \<open>i\<close> (lines 129
  to 133): "terminated experiment" when the call returned nil, and "failed to terminate
  experiment" with the error that the call returned otherwise.
\<close>

fun outcome_line :: "64 word \<Rightarrow> error option \<Rightarrow> log_entry" where
  "outcome_line i None = Errorw ''terminated experiment'' [(''experimentId'', F_id i)]"
| "outcome_line i (Some err) =
     Errorw ''failed to terminate experiment'' [(''err'', F_err err), (''experimentId'', F_id i)]"

text \<open>
  The number of results up to and including the first success (\<open>None\<close>); one more than the
  number of results when none is a success, so that \<open>take\<close> of it keeps them all.
\<close>

definition upto_first_success :: "error option list \<Rightarrow> nat" where
  "upto_first_success rs = Suc (length (takeWhile (\<lambda>r. r \<noteq> None) rs))"

fun tick_world :: "'s tick_result \<Rightarrow> 's world" where
  "tick_world (Completed w terminated) = w"
| "tick_world (Panicked p w) = w"

fun is_Panicked :: "'s tick_result \<Rightarrow> bool" where
  "is_Panicked (Panicked p w) = True"
| "is_Panicked (Completed w terminated) = False"

subsection \<open>A store and criteria to run the monitor on\<close>

text \<open>
  A store that holds the running experiments and the terminations it accepted; it refuses the
  first \<open>failures\<close> calls of \<^verbatim>\<open>TerminateExperiment\<close>.
\<close>

record test_store =
  running :: "Experiment list"
  stopped :: "(64 word \<times> string) list"
  failures :: nat

definition test_Storer :: "test_store Storer" where
  "test_Storer =
     \<lparr>GetExperiments = (\<lambda>s types status. Inr (running s)),
      TerminateExperiment = (\<lambda>s i reason.
         if 0 < failures s then (Some (errorString ''unavailable''), s\<lparr>failures := failures s - 1\<rparr>)
         else (None, s\<lparr>running := filter (\<lambda>e. Id' e \<noteq> i) (running s),
                        stopped := stopped s @ [(i, reason)]\<rparr>))\<rparr>"

definition test_world :: "Experiment list \<Rightarrow> nat \<Rightarrow> test_store world" where
  "test_world es n =
     \<lparr>store_state = \<lparr>running = es, stopped = [], failures = n\<rparr>,
      logged = [],
      activeMonitoringRoutines = \<lparr>gauge = 0, val = 0\<rparr>,
      terminationCount = 0,
      calls = []\<rparr>"

definition test_experiment :: "64 word \<Rightarrow> int \<Rightarrow> Experiment" where
  "test_experiment i started =
     \<lparr>Id' = i, Config = None, StartTime = Some \<lparr>Seconds = started, Nanos = 0\<rparr>, EndTime = None\<rparr>"

text \<open>
  Criteria: three that answer the same whatever they observe, and one that reads the clock
  (what it observes is the time of the call) and returns the error "expired" once the experiment
  has run for \<open>d\<close> nanoseconds.
\<close>

definition always_error :: "string \<Rightarrow> 'v TerminationCriteria" where
  "always_error reason = (\<lambda>v tt e. Returns (Some (errorString reason)))"

definition never_terminate :: "'v TerminationCriteria" where
  "never_terminate = (\<lambda>v tt e. Returns None)"

definition always_panic :: "'v TerminationCriteria" where
  "always_panic = (\<lambda>v tt e. Panics ''invalid memory address or nil pointer dereference'')"

definition expires_after :: "int \<Rightarrow> time TerminationCriteria" where
  "expires_after d = (\<lambda>now tt e. if tt + d \<le> now then Returns (Some (errorString ''expired'')) else Returns None)"

section \<open>The runtime discovery server (package rtds)\<close>

subsection \<open>Configuration and construction\<close>

text \<open>
  \<^verbatim>\<open>durationpb.Duration\<close> and the module's configuration message, with the fields that
  \<^verbatim>\<open>newTestServer\<close> sets; and the length of time that a duration message denotes, in
  nanoseconds.
\<close>

record Duration =
  Seconds :: int
  Nanos :: int


definition time_Second :: int where
  "time_Second = 1000000000"

text \<open>
  \<^verbatim>\<open>ptypes.DurationProto\<close> splits nanoseconds into seconds and nanoseconds of the same
  sign (Go's division truncates).
\<close>

definition DurationProto :: "int \<Rightarrow> Duration" where
  "DurationProto d =
     \<lparr>Seconds = sgn d * (\<bar>d\<bar> div 1000000000), Nanos = sgn d * (\<bar>d\<bar> mod 1000000000)\<rparr>"

record rtds_Config =
  RtdsLayerName :: string
  CacheRefreshInterval :: "Duration option"
  IngressFaultRuntimePrefix :: string
  EgressFaultRuntimePrefix :: string
  ResourceTtl :: "Duration option"
  HeartbeatInterval :: "Duration option"

text \<open>The configuration that \<^verbatim>\<open>newTestServer(t, ttl)\<close> builds (lines 198 to 212).\<close>

definition newTestServer_config :: "bool \<Rightarrow> rtds_Config" where
  "newTestServer_config ttl =
     \<lparr>RtdsLayerName = ''tests'',
      CacheRefreshInterval = Some (DurationProto time_Second),
      IngressFaultRuntimePrefix = ''ingress'',
      EgressFaultRuntimePrefix = ''egress'',
      ResourceTtl = (if ttl then Some \<lparr>Seconds = 1, Nanos = 0\<rparr> else None),
      HeartbeatInterval = (if ttl then Some \<lparr>Seconds = 1, Nanos = 0\<rparr> else None)\<rparr>"



text \<open>
  Modelled from the spec: what a module keeps of its configuration (section 6): the layer
  name, and the TTL and the heartbeat interval when TTL mode is on.
\<close>

record rtds_module =
  layer_name :: string
  resource_ttl :: "Duration option"
  heartbeat_interval :: "Duration option"

subsection \<open>Streams\<close>

text \<open>
  The stream server and the snapshot cache are not among the sources; only the tests
  \<^verbatim>\<open>TestServerStats\<close> and \<^verbatim>\<open>TestResourceTTL\<close> are. The definitions of this subsection
  follow sections 3, 4.3, 4.4 and 6 of the spec, for one stream. Versions and nonces are
  opaque strings there; here they are numbers, and \<open>None\<close> is the empty string of a request
  and "nothing sent yet" on the server. An \<^verbatim>\<open>error_detail\<close> is present or absent, as in
  \<^verbatim>\<open>TestServerStats\<close>, whose negative acknowledgement carries an empty status.
\<close>

datatype protocol = V2 | V3

datatype stream_state = Idle | AwaitingAck

record rpc_Status =
  Code :: int
  Message :: string

record DiscoveryRequest =
  VersionInfo :: "nat option"
  ResponseNonce :: "nat option"
  ResourceNames :: "string list"
  ErrorDetail :: "rpc_Status option"

text \<open>A resource of a response, \<^verbatim>\<open>{ name, ttl, resource? }\<close>, and a response.\<close>

record discovery_Resource =
  Name :: string
  Ttl :: "Duration option"
  Resource :: "Any option"

datatype response_kind = Content | Heartbeat

record DiscoveryResponse =
  response_VersionInfo :: nat
  Nonce :: nat
  Resources :: "discovery_Resource list"
  kind :: response_kind

record Snapshot =
  version :: nat
  entries :: "(string \<times> Any) list"

text \<open>
  Modelled from the spec: the stream state of section 3, with what the stream shares with the
  server: the module, the snapshot of its cluster, the two counters of section 4.4 (one value
  per protocol version) and the responses emitted so far.
\<close>

record stream =
  module :: rtds_module
  proto :: protocol
  state :: stream_state
  subscribed :: bool
  snapshot :: Snapshot
  last_sent_version :: "nat option"
  last_sent_nonce :: "nat option"
  last_sent_names :: "string list"
  last_acked_version :: "nat option"
  nonces_issued :: nat
  totalResourcesServed :: "protocol \<Rightarrow> nat"
  totalErrorsReceived :: "protocol \<Rightarrow> nat"
  emitted :: "DiscoveryResponse list"

text \<open>Modelled from the spec: a stream as it is accepted, idle and not yet subscribed.\<close>

definition open_stream :: "rtds_module \<Rightarrow> protocol \<Rightarrow> Snapshot \<Rightarrow> stream" where
  "open_stream md p snap =
     \<lparr>module = md, proto = p, state = Idle, subscribed = False, snapshot = snap,
      last_sent_version = None, last_sent_nonce = None, last_sent_names = [],
      last_acked_version = None, nonces_issued = 0,
      totalResourcesServed = (\<lambda>p. 0), totalErrorsReceived = (\<lambda>p. 0), emitted = []\<rparr>"

text \<open>
  Modelled from the spec: the counter "total resources served" of section 4.4 is incremented
  per emitted response by its number of resources, under the stream's protocol version.
\<close>

definition emit :: "DiscoveryResponse \<Rightarrow> stream \<Rightarrow> stream" where
  "emit r st =
     st\<lparr>emitted := emitted st @ [r],
        totalResourcesServed := (totalResourcesServed st)
          (proto st := totalResourcesServed st (proto st) + length (Resources r))\<rparr>"

text \<open>
  Modelled from the spec: the push rule of section 4.4. When idle, subscribed, and the
  snapshot's version differs from the last one sent (or none was sent), emit the snapshot under
  a fresh nonce, every resource with the configured TTL, and await the acknowledgement.
\<close>

definition push :: "stream \<Rightarrow> stream" where
  "push st =
     (if state st = Idle \<and> subscribed st \<and> last_sent_version st \<noteq> Some (version (snapshot st)) then
        (let n = Suc (nonces_issued st);
             r = \<lparr>response_VersionInfo = version (snapshot st), Nonce = n,
                  Resources = map (\<lambda>(nm, body). \<lparr>Name = nm, Ttl = resource_ttl (module st), Resource = Some body\<rparr>)
                                  (entries (snapshot st)),
                  kind = Content\<rparr>
         in (emit r st)\<lparr>nonces_issued := n, last_sent_nonce := Some n,
                        last_sent_version := Some (version (snapshot st)),
                        last_sent_names := map fst (entries (snapshot st)),
                        state := AwaitingAck\<rparr>)
      else st)"

text \<open>
  Modelled from the spec: the heartbeat rule of sections 4.3 and 4.4 (TTL mode only). When the
  interval has passed since the last response and the stream is idle, emit the version last
  sent again, the resources with their TTL and without their body. It neither changes the
  version nor awaits an acknowledgement; while an acknowledgement is awaited it is suppressed.
\<close>

definition heartbeat :: "stream \<Rightarrow> stream" where
  "heartbeat st =
     (case (resource_ttl (module st), last_sent_version st, last_sent_nonce st) of
        (Some ttl, Some v, Some n) \<Rightarrow>
          if state st = Idle then
            emit \<lparr>response_VersionInfo = v, Nonce = n,
                  Resources = map (\<lambda>nm. \<lparr>Name = nm, Ttl = Some ttl, Resource = None\<rparr>) (last_sent_names st),
                  kind = Heartbeat\<rparr> st
          else st
      | _ \<Rightarrow> st)"

text \<open>
  Modelled from the spec: the four cases of a request received from the client, in the order
  of section 4.4: a negative acknowledgement (counted, and the stream returns to idle), an
  acknowledgement of the nonce and version last sent, an initial request (subscribe and push),
  and a stale request (dropped).
\<close>

definition recv :: "DiscoveryRequest \<Rightarrow> stream \<Rightarrow> stream" where
  "recv req st =
     (if ErrorDetail req \<noteq> None then
        st\<lparr>totalErrorsReceived := (totalErrorsReceived st)
              (proto st := totalErrorsReceived st (proto st) + 1),
           state := Idle\<rparr>
      else if last_sent_nonce st \<noteq> None \<and> ResponseNonce req = last_sent_nonce st
              \<and> VersionInfo req = last_sent_version st then
        st\<lparr>last_acked_version := VersionInfo req, state := Idle\<rparr>
      else if ResponseNonce req = None \<and> VersionInfo req = None then
        push (st\<lparr>subscribed := True\<rparr>)
      else st)"

text \<open>
  Modelled from the spec: what happens on a stream (sections 4.3 and 4.4). A request arrives,
  the cache installs a snapshot of another version and notifies the stream, the stream takes a
  pending notification, the heartbeat interval passes, or the nonce of the response in flight
  expires and the stream returns to idle.
\<close>

datatype stream_event =
    Recv DiscoveryRequest
  | SetSnapshot Snapshot
  | Notified
  | HeartbeatElapsed
  | NonceExpired

text \<open>
  Modelled from the spec: the stream's reaction to each event, and a stream run over a sequence
  of events.
\<close>

fun stream_step :: "stream \<Rightarrow> stream_event \<Rightarrow> stream" where
  "stream_step st (Recv req) = recv req st"
| "stream_step st (SetSnapshot snap) =
     (if version snap = version (snapshot st) then st else push (st\<lparr>snapshot := snap\<rparr>))"
| "stream_step st Notified = push st"
| "stream_step st HeartbeatElapsed = heartbeat st"
| "stream_step st NonceExpired = st\<lparr>state := Idle\<rparr>"

definition stream_run :: "stream_event list \<Rightarrow> stream \<Rightarrow> stream" where
  "stream_run evs st = foldl stream_step st evs"

text \<open>
  What a sequence of emitted responses must satisfy in TTL mode, read from the first response
  on: every resource carries the TTL; a content response has a body in every resource and
  sets the current version; a heartbeat has no body and carries the current version.
\<close>

fun ttl_responses :: "Duration \<Rightarrow> nat option \<Rightarrow> DiscoveryResponse list \<Rightarrow> bool" where
  "ttl_responses d cur [] = True"
| "ttl_responses d cur (r # rs) =
     (list_all (\<lambda>x. Ttl x = Some d) (Resources r)
      \<and> (case kind r of
           Content \<Rightarrow> list_all (\<lambda>x. Resource x \<noteq> None) (Resources r)
                       \<and> ttl_responses d (Some (response_VersionInfo r)) rs
         | Heartbeat \<Rightarrow> list_all (\<lambda>x. Resource x = None) (Resources r)
                       \<and> cur = Some (response_VersionInfo r)
                       \<and> ttl_responses d cur rs))"

text \<open>The snapshot of the tests: the one runtime layer.\<close>

definition test_snapshot :: "nat \<Rightarrow> Snapshot" where
  "test_snapshot v =
     \<lparr>version = v,
      entries = [(''tests'', \<lparr>TypeUrl = ''type.googleapis.com/envoy.service.runtime.v3.Runtime'', Value = []\<rparr>)]\<rparr>"

definition request :: "nat option \<Rightarrow> nat option \<Rightarrow> rpc_Status option \<Rightarrow> DiscoveryRequest" where
  "request v n e = \<lparr>VersionInfo = v, ResponseNonce = n, ResourceNames = [], ErrorDetail = e\<rparr>"

fun current_version :: "nat option \<Rightarrow> DiscoveryResponse list \<Rightarrow> nat option" where
  "current_version cur [] = cur"
| "current_version cur (r # rs) =
     current_version (case kind r of Content \<Rightarrow> Some (response_VersionInfo r) | Heartbeat \<Rightarrow> cur) rs"


section \<open>Predicates used in the proofs\<close>

text \<open>
  What one run of the loop over the criteria does, started in world \<open>w\<close> with the flag
  \<open>t\<close>: it appends the calls \<open>new\<close> to the trace, one \<^verbatim>\<open>TerminateExperiment\<close> call
  per error returned, logs the outcome of every such call and nothing else, counts the
  successful calls, leaves the gauge alone, sets \<^verbatim>\<open>terminated\<close> exactly when a call
  succeeded, and panics exactly when a criterion does.
\<close>

definition loop_post ::
  "Experiment \<Rightarrow> 'v \<Rightarrow> 'v TerminationCriteria list \<Rightarrow> 's world \<Rightarrow> bool \<Rightarrow> 's tick_result
     \<Rightarrow> call list \<Rightarrow> bool" where
  "loop_post e v cs w t R new =
     (calls (tick_world R) = calls w @ new
      \<and> terminations new = map (\<lambda>err. (Id' e, Error err)) (fired v (ptypes_Timestamp (StartTime e)) e cs)
      \<and> terminationCount (tick_world R) = terminationCount w + int (count_list (terminate_results new) None)
      \<and> logged (tick_world R) = logged w @ map (outcome_line (Id' e)) (terminate_results new)
      \<and> activeMonitoringRoutines (tick_world R) = activeMonitoringRoutines w
      \<and> (\<forall>w' t'. R = Completed w' t' \<longrightarrow> t' = (t \<or> None \<in> set (terminate_results new)))
      \<and> is_Panicked R = list_ex (\<lambda>c. is_Panics (c v (ptypes_Timestamp (StartTime e)) e)) cs)"

text \<open>
  The same for a run of \<^verbatim>\<open>monitorSingleExperiment\<close> over \<open>cases\<close>, from routine state
  \<open>r0\<close> in world \<open>w0\<close> to \<open>r\<close> in \<open>w\<close>.
\<close>

definition select_post ::
  "('s, 'v) monitor \<Rightarrow> Experiment \<Rightarrow> routine \<Rightarrow> 's world \<Rightarrow> 'v select_case list \<Rightarrow> routine
     \<Rightarrow> 's world \<Rightarrow> call list \<Rightarrow> bool" where
  "select_post m e r0 w0 cases r w new =
     (calls w = calls w0 @ new
      \<and> terminationCount w = terminationCount w0 + int (count_list (terminate_results new) None)
      \<and> (r0 \<noteq> Running False \<longrightarrow> r \<noteq> Running False \<and> w = w0)
      \<and> (r = Running False \<longrightarrow> None \<notin> set (terminate_results new))
      \<and> ((\<forall>v \<in> set (ticks cases). length (fired v (ptypes_Timestamp (StartTime e)) e (criterias m)) \<le> 1) \<longrightarrow>
            None \<notin> set (butlast (terminate_results new))))"

text \<open>
  The bookkeeping of the outer loop: ids are keys of \<^verbatim>\<open>trackedExperiments\<close> at most
  once, the context of the goroutine at position \<open>k\<close> is \<open>k\<close>, and a goroutine whose context
  is not canceled is the one tracked for its id.
\<close>

definition tracking_inv :: "'s system \<Rightarrow> bool" where
  "tracking_inv s =
     (distinct (map fst (trackedExperiments s))
      \<and> (\<forall>k < length (goroutines s). ctx (goroutines s ! k) = k)
      \<and> (\<forall>k < length (goroutines s). k \<notin> canceled s \<longrightarrow>
            (spawned_for (goroutines s ! k), k) \<in> set (trackedExperiments s)))"

text \<open>
  In TTL mode the responses emitted so far are well formed and the version last sent is their
  current version.
\<close>

definition ttl_inv :: "Duration \<Rightarrow> stream \<Rightarrow> bool" where
  "ttl_inv d st =
     (resource_ttl (module st) = Some d
      \<and> ttl_responses d None (emitted st)
      \<and> current_version None (emitted st) = last_sent_version st)"

section \<open>Properties of the tracking gauge\<close>

lemma unat_max32: "unat (- 1 :: 32 word) = 4294967295"
  by (simp add: unsigned_minus_1_eq_mask mask_eq_exp_minus_1)

lemma unat_add_max32: "unat (v + NOT 0 :: 32 word) = (unat v + (2 ^ 32 - 1)) mod 2 ^ 32"
proof -
  have "unat (v + (- 1) :: 32 word) = (unat v + unat (- 1 :: 32 word)) mod 2 ^ LENGTH(32)"
    by (rule unat_word_ariths)
  then show ?thesis by (simp add: unat_max32)
qed

lemma val_inc: "val (inc t) = val t + 1"
  by (simp add: inc_def AddUint32_def Let_def)

lemma val_dec: "val (dec t) = val t + NOT 0"
  by (simp add: dec_def AddUint32_def Let_def)

lemma gauge_inc: "gauge (inc t) = real (unat (val (inc t)))"
  by (simp add: inc_def Update_def float64_def Let_def)

lemma gauge_dec: "gauge (dec t) = real (unat (val (dec t)))"
  by (simp add: dec_def Update_def float64_def Let_def)

text \<open>
  C10. The gauge is kept with unsigned 32-bit wrapping arithmetic: \<open>dec\<close> adds \<open>2^32 - 1\<close>
  modulo \<open>2^32\<close>; a \<open>dec\<close> right after an \<open>inc\<close> restores the value held before and reports
  it; a \<open>dec\<close> at value 0 makes the gauge report 4294967295.
\<close>

theorem trackingGauge_wraps:
  "unat (val (dec t)) = (unat (val t) + (2 ^ 32 - 1)) mod 2 ^ 32
   \<and> gauge (dec t) = real ((unat (val t) + (2 ^ 32 - 1)) mod 2 ^ 32)
   \<and> val (dec (inc t)) = val t
   \<and> gauge (dec (inc t)) = real (unat (val t))
   \<and> unat (val (dec (t\<lparr>val := 0\<rparr>))) = 4294967295
   \<and> gauge (dec (t\<lparr>val := 0\<rparr>)) = 4294967295"
proof -
  have 1: "unat (val (dec t)) = (unat (val t) + (2 ^ 32 - 1)) mod 2 ^ 32"
    by (simp only: val_dec unat_add_max32)
  have 2: "gauge (dec t) = real ((unat (val t) + (2 ^ 32 - 1)) mod 2 ^ 32)"
    by (simp only: gauge_dec 1)
  have 3: "val (dec (inc t)) = val t"
    by (simp add: val_dec val_inc)
  have 4: "gauge (dec (inc t)) = real (unat (val t))"
    by (simp only: gauge_dec 3)
  have 5: "unat (val (dec (t\<lparr>val := 0\<rparr>))) = 4294967295"
    by (simp add: val_dec unat_max32)
  have 6: "gauge (dec (t\<lparr>val := 0\<rparr>)) = 4294967295"
    by (simp only: gauge_dec 5)
  from 1 2 3 4 5 6 show ?thesis by blast
qed

section \<open>Properties of the inner loop\<close>

lemma terminations_append [simp]: "terminations (xs @ ys) = terminations xs @ terminations ys"
  by (induction xs rule: terminations.induct) auto

lemma terminate_results_append [simp]:
  "terminate_results (xs @ ys) = terminate_results xs @ terminate_results ys"
  by (induction xs rule: terminate_results.induct) auto

lemma new_calls_append: "calls w' = calls w @ new \<Longrightarrow> new_calls w w' = new"
  by (simp add: new_calls_def)

lemma criterias_loop_post: "\<exists>new. loop_post e v cs w t (criterias_loop m e v cs w t) new"
proof (induction cs arbitrary: w t)
  case Nil
  show ?case by (rule exI [of _ "[]"]) (simp add: loop_post_def)
next
  case (Cons c cs)
  let ?tt = "ptypes_Timestamp (StartTime e)"
  let ?w1 = "w\<lparr>calls := calls w @ [Call_ShouldTerminate ?tt e]\<rparr>"
  show ?case
  proof (cases "c v ?tt e")
    case (Panics p)
    then show ?thesis
      by (intro exI [of _ "[Call_ShouldTerminate ?tt e]"]) (simp add: loop_post_def Let_def)
  next
    case (Returns r)
    show ?thesis
    proof (cases r)
      case None
      from Cons.IH [of ?w1 t] obtain new where "loop_post e v cs ?w1 t (criterias_loop m e v cs ?w1 t) new" ..
      with Returns None show ?thesis
        by (intro exI [of _ "Call_ShouldTerminate ?tt e # new"]) (simp add: loop_post_def Let_def)
    next
      case (Some err)
      obtain r' s' where te: "TerminateExperiment (store m) (store_state ?w1) (Id' e) (Error err) = (r', s')"
        by (cases "TerminateExperiment (store m) (store_state ?w1) (Id' e) (Error err)")
      show ?thesis
      proof (cases r')
        case None
        let ?w2 = "?w1\<lparr>store_state := s',
                        calls := calls ?w1 @ [Call_TerminateExperiment (Id' e) (Error err) None],
                        logged := logged ?w1 @ [Errorw ''terminated experiment''
                                    [(''experimentId'', F_id (Id' e))]],
                        terminationCount := terminationCount ?w1 + 1\<rparr>"
        from Cons.IH [of ?w2 True] obtain new where "loop_post e v cs ?w2 True (criterias_loop m e v cs ?w2 True) new" ..
        with Returns Some te None show ?thesis
          by (intro exI [of _ "Call_ShouldTerminate ?tt e # Call_TerminateExperiment (Id' e) (Error err) None # new"])
             (auto simp: loop_post_def Let_def)
      next
        case (Some err')
        let ?w2 = "?w1\<lparr>store_state := s',
                        calls := calls ?w1 @ [Call_TerminateExperiment (Id' e) (Error err) (Some err')],
                        logged := logged ?w1 @ [Errorw ''failed to terminate experiment''
                                    [(''err'', F_err err'), (''experimentId'', F_id (Id' e))]]\<rparr>"
        from Cons.IH [of ?w2 t] obtain new where "loop_post e v cs ?w2 t (criterias_loop m e v cs ?w2 t) new" ..
        with Returns \<open>r = Some err\<close> te Some show ?thesis
          by (intro exI [of _ "Call_ShouldTerminate ?tt e # Call_TerminateExperiment (Id' e) (Error err) (Some err') # new"])
             (simp add: loop_post_def Let_def)
      qed
    qed
  qed
qed

lemma ticker_case_post:
  "\<exists>new. loop_post e v (criterias m) w False (ticker_case m e v w False) new"
  by (simp add: ticker_case_def criterias_loop_post)

lemma select_stays_done:
  "r0 \<noteq> Running False \<Longrightarrow> monitorSingleExperiment_select m e (r0, w0) c = (r1, w1) \<Longrightarrow>
     r1 \<noteq> Running False \<and> w1 = w0"
  by (cases r0; cases c) (auto simp: ticker_case_def)

lemma length_terminate_results: "length (terminate_results cs) = length (terminations cs)"
  by (induction cs rule: terminations.induct) auto

lemma butlast_short: "length xs \<le> 1 \<Longrightarrow> butlast xs = []"
  by (cases xs) auto

lemma ticks_Cons: "set (ticks (c # cases)) = set (ticks [c]) \<union> set (ticks cases)"
  by (cases c) auto

lemma select_post_one:
  assumes "monitorSingleExperiment_select m e (r0, w0) c = (r1, w1)"
  shows "\<exists>new. select_post m e r0 w0 [c] r1 w1 new"
proof (cases "r0 = Running False \<and> c \<noteq> CtxDone")
  case False
  then have "r1 \<noteq> Running False \<and> w1 = w0"
    using assms by (cases r0; cases c) (auto simp: ticker_case_def)
  then show ?thesis
    by (intro exI [of _ "[]"]) (simp add: select_post_def)
next
  case True
  then obtain v where c: "c = TickerC v" by (cases c) auto
  from ticker_case_post obtain new where p: "loop_post e v (criterias m) w0 False (ticker_case m e v w0 False) new" ..
  have len: "length (terminate_results new) = length (fired v (ptypes_Timestamp (StartTime e)) e (criterias m))"
    using p by (simp add: loop_post_def length_terminate_results)
  have bl: "length (fired v (ptypes_Timestamp (StartTime e)) e (criterias m)) \<le> 1 \<longrightarrow>
              None \<notin> set (butlast (terminate_results new))"
    using len by (simp add: butlast_short)
  show ?thesis
  proof (cases "ticker_case m e v w0 False")
    case (Completed w' t')
    with True c assms have "r1 = Running t'" "w1 = w'" by auto
    with p Completed bl show ?thesis
      by (intro exI [of _ new]) (simp add: select_post_def loop_post_def True c)
  next
    case (Panicked p' w')
    with True c assms have "r1 = Panicking p'" "w1 = w'" by auto
    with p Panicked bl show ?thesis
      by (intro exI [of _ new]) (simp add: select_post_def loop_post_def True c)
  qed
qed

lemma butlast_append_no_success:
  assumes "None \<notin> set (butlast xs)" and "None \<notin> set (butlast ys)" and "ys \<noteq> [] \<longrightarrow> None \<notin> set xs"
  shows "None \<notin> set (butlast (xs @ ys))"
  using assms by (cases "ys = []") (auto simp: butlast_append)

lemma run_post:
  "foldl (monitorSingleExperiment_select m e) (r0, w0) cases = (r, w) \<Longrightarrow>
     \<exists>new. select_post m e r0 w0 cases r w new"
proof (induction cases arbitrary: r0 w0)
  case Nil
  then show ?case by (intro exI [of _ "[]"]) (simp add: select_post_def)
next
  case (Cons c cases)
  obtain r1 w1 where s1: "monitorSingleExperiment_select m e (r0, w0) c = (r1, w1)"
    by (cases "monitorSingleExperiment_select m e (r0, w0) c")
  then obtain new1 where n1: "select_post m e r0 w0 [c] r1 w1 new1"
    using select_post_one by blast
  from Cons.prems s1 have "foldl (monitorSingleExperiment_select m e) (r1, w1) cases = (r, w)"
    by simp
  then obtain new2 where n2: "select_post m e r1 w1 cases r w new2"
    using Cons.IH by blast
  have tail: "new2 \<noteq> [] \<longrightarrow> None \<notin> set (terminate_results new1)"
    using n1 n2 by (auto simp: select_post_def)
  have "select_post m e r0 w0 (c # cases) r w (new1 @ new2)"
    unfolding select_post_def
  proof (intro conjI impI)
    show "calls w = calls w0 @ new1 @ new2" using n1 n2 by (simp add: select_post_def)
    show "terminationCount w = terminationCount w0 + int (count_list (terminate_results (new1 @ new2)) None)"
      using n1 n2 by (simp add: select_post_def)
    show "r \<noteq> Running False" if "r0 \<noteq> Running False" using that n1 n2 by (simp add: select_post_def)
    show "w = w0" if "r0 \<noteq> Running False" using that n1 n2 by (simp add: select_post_def)
    show "None \<notin> set (terminate_results (new1 @ new2))" if "r = Running False"
      using that n1 n2 by (auto simp: select_post_def)
    show "None \<notin> set (butlast (terminate_results (new1 @ new2)))"
      if h: "\<forall>v \<in> set (ticks (c # cases)). length (fired v (ptypes_Timestamp (StartTime e)) e (criterias m)) \<le> 1"
    proof -
      from h have "\<forall>v \<in> set (ticks [c]) \<union> set (ticks cases).
          length (fired v (ptypes_Timestamp (StartTime e)) e (criterias m)) \<le> 1"
        by (simp only: ticks_Cons [of c cases])
      then have h1: "\<forall>v \<in> set (ticks [c]). length (fired v (ptypes_Timestamp (StartTime e)) e (criterias m)) \<le> 1"
        and h2: "\<forall>v \<in> set (ticks cases). length (fired v (ptypes_Timestamp (StartTime e)) e (criterias m)) \<le> 1"
        by blast+
      have a: "None \<notin> set (butlast (terminate_results new1))" using n1 h1 by (simp add: select_post_def)
      have b: "None \<notin> set (butlast (terminate_results new2))" using n2 h2 by (simp add: select_post_def)
      have c: "terminate_results new2 \<noteq> [] \<longrightarrow> None \<notin> set (terminate_results new1)"
        using tail by auto
      show ?thesis using butlast_append_no_success [OF a b c] by simp
    qed
  qed
  then show ?case by blast
qed

text \<open>
  The loop leaves \<^verbatim>\<open>monitorSingleExperiment\<close> only through \<^verbatim>\<open><-ctx.Done()\<close> or a
  panic of a criterion.
\<close>

lemma stays_in_loop:
  assumes "foldl (monitorSingleExperiment_select m e) (r0, w0) cases = (r, w)"
    and "is_Running r0" and "CtxDone \<notin> set cases"
    and "\<forall>v \<in> set (ticks cases). \<not> list_ex (\<lambda>c. is_Panics (c v (ptypes_Timestamp (StartTime e)) e)) (criterias m)"
  shows "is_Running r"
  using assms
proof (induction cases arbitrary: r0 w0)
  case Nil
  then show ?case by simp
next
  case (Cons c cases)
  from Cons.prems(3) obtain v where c: "c = TickerC v" by (cases c) auto
  from Cons.prems(2) obtain t where r0: "r0 = Running t" by (cases r0) auto
  from Cons.prems(4) c have np: "\<not> list_ex (\<lambda>c. is_Panics (c v (ptypes_Timestamp (StartTime e)) e)) (criterias m)"
    and rest: "\<forall>v \<in> set (ticks cases). \<not> list_ex (\<lambda>c. is_Panics (c v (ptypes_Timestamp (StartTime e)) e)) (criterias m)"
    by simp_all
  from criterias_loop_post obtain new where p: "loop_post e v (criterias m) w0 t (criterias_loop m e v (criterias m) w0 t) new" ..
  with np have "\<not> is_Panicked (criterias_loop m e v (criterias m) w0 t)"
    by (simp add: loop_post_def)
  then have "\<not> is_Panicked (ticker_case m e v w0 t)"
    by (cases t) (simp_all add: ticker_case_def)
  then obtain w1 t1 where "ticker_case m e v w0 t = Completed w1 t1"
    by (cases "ticker_case m e v w0 t") auto
  with Cons.prems(1) c r0 have "foldl (monitorSingleExperiment_select m e) (Running t1, w1) cases = (r, w)"
    by simp
  moreover have "is_Running (Running t1)" by simp
  moreover from Cons.prems(3) have "CtxDone \<notin> set cases" by simp
  ultimately show ?case using rest by (rule Cons.IH)
qed

text \<open>
  While no \<^verbatim>\<open>TerminateExperiment\<close> call has succeeded, the loop has not set
  \<^verbatim>\<open>terminated\<close> and every tick has made the calls of the criteria that returned an error
  on it.
\<close>

lemma unterminated_run:
  assumes "foldl (monitorSingleExperiment_select m e) (Running False, w0) cases = (r, w)"
    and "CtxDone \<notin> set cases"
    and "\<forall>v \<in> set (ticks cases). \<not> list_ex (\<lambda>c. is_Panics (c v (ptypes_Timestamp (StartTime e)) e)) (criterias m)"
    and "None \<notin> set (terminate_results (new_calls w0 w))"
  shows "r = Running False
     \<and> terminations (new_calls w0 w) =
         concat (map (\<lambda>v. map (\<lambda>err. (Id' e, Error err)) (fired v (ptypes_Timestamp (StartTime e)) e (criterias m)))
                     (ticks cases))"
  using assms
proof (induction cases arbitrary: w0)
  case Nil
  then show ?case by (simp add: new_calls_def)
next
  case (Cons c cases)
  from Cons.prems(2) obtain v where c: "c = TickerC v" by (cases c) auto
  from Cons.prems(3) c have np: "\<not> list_ex (\<lambda>c. is_Panics (c v (ptypes_Timestamp (StartTime e)) e)) (criterias m)"
    and rest: "\<forall>v \<in> set (ticks cases). \<not> list_ex (\<lambda>c. is_Panics (c v (ptypes_Timestamp (StartTime e)) e)) (criterias m)"
    by simp_all
  from ticker_case_post obtain new1 where p: "loop_post e v (criterias m) w0 False (ticker_case m e v w0 False) new1" ..
  with np have "\<not> is_Panicked (ticker_case m e v w0 False)"
    by (simp add: loop_post_def ticker_case_def)
  then obtain w1 t1 where t: "ticker_case m e v w0 False = Completed w1 t1"
    by (cases "ticker_case m e v w0 False") auto
  with Cons.prems(1) c have f: "foldl (monitorSingleExperiment_select m e) (Running t1, w1) cases = (r, w)"
    by simp
  then obtain new2 where n2: "select_post m e (Running t1) w1 cases r w new2"
    using run_post by blast
  from p t have c1: "calls w1 = calls w0 @ new1"
    and t1: "t1 = (None \<in> set (terminate_results new1))"
    and f1: "terminations new1 = map (\<lambda>err. (Id' e, Error err)) (fired v (ptypes_Timestamp (StartTime e)) e (criterias m))"
    by (simp_all add: loop_post_def)
  from n2 have c2: "calls w = calls w1 @ new2" by (simp add: select_post_def)
  from c1 c2 have all: "new_calls w0 w = new1 @ new2" and tl: "new_calls w1 w = new2"
    by (simp_all add: new_calls_def)
  from Cons.prems(4) all have no1: "None \<notin> set (terminate_results new1)"
    and no2: "None \<notin> set (terminate_results new2)" by simp_all
  from t1 no1 have "t1 = False" by simp
  with f have f': "foldl (monitorSingleExperiment_select m e) (Running False, w1) cases = (r, w)"
    by simp
  from Cons.prems(2) have nd: "CtxDone \<notin> set cases" by simp
  from no2 tl have no2': "None \<notin> set (terminate_results (new_calls w1 w))" by simp
  from Cons.IH [OF f' nd rest no2'] tl
  have "r = Running False" and "terminations new2 =
         concat (map (\<lambda>v. map (\<lambda>err. (Id' e, Error err)) (fired v (ptypes_Timestamp (StartTime e)) e (criterias m)))
                     (ticks cases))"
    by simp_all
  with all f1 c show ?case by simp
qed

lemma parked:
  "foldl (monitorSingleExperiment_select m e) (Running True, w) cases =
     (if CtxDone \<in> set cases then Returned else Running True, w)"
proof (induction cases)
  case Nil
  show ?case by simp
next
  case (Cons c cases)
  have r: "foldl (monitorSingleExperiment_select m e) (Returned, w) cs = (Returned, w)" for cs
    by (induction cs) simp_all
  show ?case using Cons r by (cases c) (simp_all add: ticker_case_def)
qed

text \<open>
  Once a \<^verbatim>\<open>TerminateExperiment\<close> call has succeeded and the loop is back at its
  \<^verbatim>\<open>select\<close> (it has not been canceled, no criterion has panicked), \<^verbatim>\<open>terminated\<close>
  is set, and whatever cases the loop takes from then on leave the world as it is; the loop
  returns when it takes \<^verbatim>\<open><-ctx.Done()\<close>, and not before.
\<close>

lemma parked_after_success:
  assumes "monitorSingleExperiment m e cases1 w = (r1, w1)"
    and "None \<in> set (terminate_results (new_calls w w1))"
    and "CtxDone \<notin> set cases1"
    and "\<forall>v \<in> set (ticks cases1). \<not> list_ex (\<lambda>c. is_Panics (c v (ptypes_Timestamp (StartTime e)) e)) (criterias m)"
  shows "r1 = Running True
     \<and> monitorSingleExperiment m e (cases1 @ cases2) w =
           (if CtxDone \<in> set cases2 then Returned else Running True, w1)"
proof -
  from assms(1) have f: "foldl (monitorSingleExperiment_select m e) (Running False, w) cases1 = (r1, w1)"
    by (simp add: monitorSingleExperiment_def)
  have "is_Running (Running False)" by simp
  with f have "is_Running r1" using assms(3,4) by (rule stays_in_loop)
  then obtain t where r1: "r1 = Running t" by (cases r1) auto
  from f obtain new where p: "select_post m e (Running False) w cases1 r1 w1 new"
    using run_post by blast
  then have "new_calls w w1 = new" by (simp add: select_post_def new_calls_append)
  with p assms(2) r1 have "t" by (auto simp: select_post_def)
  with r1 f show ?thesis
    by (simp add: monitorSingleExperiment_def parked)
qed

section \<open>Properties of the outer loop\<close>

lemma tracking_inv_Run: "tracking_inv (Run w)"
  by (simp add: tracking_inv_def Run_def)

lemma tracking_inv_range:
  "tracking_inv s \<Longrightarrow> tracking_inv (snd (monitorNewExperiments_range sched es act s))"
proof (induction es arbitrary: sched act s)
  case Nil
  then show ?case by simp
next
  case (Cons x es)
  show ?case
  proof (cases "map_of (trackedExperiments s) (Id' x) = None")
    case False
    with Cons show ?thesis by (auto simp: Let_def)
  next
    case True
    let ?c = "length (goroutines s)"
    let ?d = "(case sched of [] \<Rightarrow> 0 | d # ds \<Rightarrow> d)"
    let ?s' = "s\<lparr>trackedExperiments := trackedExperiments s @ [(Id' x, ?c)],
                   world := (world s)\<lparr>activeMonitoringRoutines := inc (activeMonitoringRoutines (world s))\<rparr>,
                   goroutines := goroutines s @
                     [\<lparr>spawned_for = Id' x, ctx = ?c, arg_e = (x # es) ! min ?d (length es), routine_state = Running False\<rparr>]\<rparr>"
    from True have notin: "Id' x \<notin> fst ` set (trackedExperiments s)"
      by (simp add: map_of_eq_None_iff)
    have "tracking_inv ?s'"
      using Cons.prems notin
      by (auto simp: tracking_inv_def nth_append less_Suc_eq)
    then have "tracking_inv (snd (monitorNewExperiments_range (tl sched) es (insert (Id' x) act) ?s'))"
      by (rule Cons.IH)
    with True show ?thesis by (simp add: Let_def)
  qed
qed

lemma tracking_inv_cancel_inactive:
  assumes "tracking_inv s"
  shows "tracking_inv (cancel_inactive act s)"
proof -
  let ?keep = "filter (\<lambda>p. fst p \<in> act) (trackedExperiments s)"
  let ?drop = "filter (\<lambda>p. fst p \<notin> act) (trackedExperiments s)"
  have d: "distinct (map fst ?keep)"
    using assms by (simp add: tracking_inv_def distinct_map_filter)
  have t: "(spawned_for (goroutines s ! k), k) \<in> set ?keep"
    if k: "k < length (goroutines s)" and c: "k \<notin> canceled s \<union> set (map snd ?drop)" for k
  proof -
    from assms k c have mem: "(spawned_for (goroutines s ! k), k) \<in> set (trackedExperiments s)"
      by (simp add: tracking_inv_def)
    have "spawned_for (goroutines s ! k) \<in> act"
    proof (rule ccontr)
      assume "spawned_for (goroutines s ! k) \<notin> act"
      with mem have "(spawned_for (goroutines s ! k), k) \<in> set ?drop" by simp
      then have "snd (spawned_for (goroutines s ! k), k) \<in> snd ` set ?drop" by (rule imageI)
      with c show False by simp
    qed
    with mem show ?thesis by simp
  qed
  from assms have "\<forall>k < length (goroutines s). ctx (goroutines s ! k) = k"
    by (simp add: tracking_inv_def)
  with d t show ?thesis
    by (simp add: tracking_inv_def cancel_inactive_def)
qed

lemma tracking_inv_ticker: "tracking_inv s \<Longrightarrow> tracking_inv (Run_ticker_case m sched s)"
proof -
  assume inv: "tracking_inv s"
  show ?thesis
  proof (cases "GetExperiments (store m) (store_state (world s)) (enabledConfigTypes m) STATUS_RUNNING")
    case (Inl err)
    with inv show ?thesis by (simp add: Run_ticker_case_def tracking_inv_def)
  next
    case (Inr es)
    obtain act s' where r: "monitorNewExperiments sched es s = (act, s')"
      by (cases "monitorNewExperiments sched es s")
    then have "s' = snd (monitorNewExperiments_range sched es {} s)"
      by (simp add: monitorNewExperiments_def)
    with inv have "tracking_inv s'" by (simp add: tracking_inv_range)
    then have "tracking_inv (cancel_inactive act s')" by (rule tracking_inv_cancel_inactive)
    with Inr r show ?thesis by (simp add: Run_ticker_case_def)
  qed
qed

lemma tracking_inv_select: "tracking_inv s \<Longrightarrow> k < length (goroutines s) \<Longrightarrow> tracking_inv (goroutine_select m k c s)"
  by (auto simp: tracking_inv_def goroutine_select_def Let_def nth_list_update split: prod.splits)

lemma tracking_inv_step: "tracking_inv s \<Longrightarrow> tracking_inv (step m s ev)"
proof (cases ev)
  case (OuterTickerC sched)
  assume "tracking_inv s"
  with OuterTickerC show ?thesis by (simp add: tracking_inv_ticker)
next
  case RootCtxDone
  assume "tracking_inv s"
  with RootCtxDone show ?thesis by (simp add: tracking_inv_def)
next
  case (Select k c)
  assume "tracking_inv s"
  with Select show ?thesis by (simp add: tracking_inv_select)
next
  case (StoreChanged f)
  assume "tracking_inv s"
  with StoreChanged show ?thesis by (simp add: tracking_inv_def)
qed

lemma tracking_inv_run: "tracking_inv s \<Longrightarrow> tracking_inv (run m evs s)"
  unfolding run_def by (induction evs arbitrary: s) (simp_all add: tracking_inv_step)

lemma tracking_inv_at_most_one:
  assumes "tracking_inv s"
  shows "length (live_uncanceled_for i s) \<le> 1"
proof -
  let ?P = "\<lambda>g. spawned_for g = i \<and> is_Running (routine_state g) \<and> ctx g \<notin> canceled s"
  let ?A = "{k. k < length (goroutines s) \<and> ?P (goroutines s ! k)}"
  have eq: "\<And>a b. a \<in> ?A \<Longrightarrow> b \<in> ?A \<Longrightarrow> a = b"
  proof -
    fix a b assume a: "a \<in> ?A" and b: "b \<in> ?A"
    from a assms have "(i, a) \<in> set (trackedExperiments s)"
      by (auto simp: tracking_inv_def)
    moreover from b assms have "(i, b) \<in> set (trackedExperiments s)"
      by (auto simp: tracking_inv_def)
    moreover from assms have "distinct (map fst (trackedExperiments s))"
      by (simp add: tracking_inv_def)
    ultimately show "a = b" by (metis eq_key_imp_eq_value)
  qed
  have "finite ?A" by simp
  then have "card ?A \<le> Suc 0"
    using eq by (simp only: card_le_Suc0_iff_eq) blast
  then show ?thesis
    by (simp add: live_uncanceled_for_def length_filter_conv_card)
qed

section \<open>The monitor: errors, retries and parking\<close>

text \<open>
  C1, as amended. \<^verbatim>\<open>ShouldTerminate\<close> returns one \<^verbatim>\<open>error\<close> value and the monitor reads
  it as the termination reason. On a tick of an inner loop that has not terminated its
  experiment, the \<^verbatim>\<open>TerminateExperiment\<close> calls up to and including the first that succeeds
  are, in order, one per criterion that returned a non-nil error (of the criteria evaluated,
  which are those up to the first that panics), for the experiment's id and with the error's
  text as the reason; a nil return triggers no call. The lines logged on the tick are the
  outcomes of the \<^verbatim>\<open>TerminateExperiment\<close> calls made on it, one per call and in order:
  "terminated experiment", or "failed to terminate experiment" with the error that the store
  returned. Nothing is logged for the error of a criterion as such.
\<close>

theorem nonnil_error_is_termination_reason:
  "take (upto_first_success (terminate_results (new_calls w (tick_world (ticker_case m e v w False)))))
        (terminations (new_calls w (tick_world (ticker_case m e v w False))))
     = take (upto_first_success (terminate_results (new_calls w (tick_world (ticker_case m e v w False)))))
        (map (\<lambda>err. (Id' e, Error err)) (fired v (ptypes_Timestamp (StartTime e)) e (criterias m)))
   \<and> logged (tick_world (ticker_case m e v w False))
     = logged w @ map (outcome_line (Id' e))
         (terminate_results (new_calls w (tick_world (ticker_case m e v w False))))"
proof -
  from ticker_case_post obtain new where p: "loop_post e v (criterias m) w False (ticker_case m e v w False) new" ..
  then have "new_calls w (tick_world (ticker_case m e v w False)) = new"
    by (simp add: loop_post_def new_calls_append)
  with p show ?thesis by (simp add: loop_post_def)
qed

text \<open>
  The theorem at three criteria, the first returning nil, the second the error "expired" and
  the third the error "too many errors", on a store that refuses the first call: the call for
  "expired" fails, the call for "too many errors" is the first that succeeds, and the two lines
  logged are the outcomes of the two calls.
\<close>

theorem nonnil_error_is_termination_reason_witness:
  "upto_first_success (terminate_results (new_calls (test_world [test_experiment 1 5] 1)
      (tick_world (ticker_case
         (NewTestMonitor test_Storer [] [never_terminate, always_error ''expired'', always_error ''too many errors''])
         (test_experiment 1 5) (0 :: int) (test_world [test_experiment 1 5] 1) False)))) = 2
   \<and> take 2 (terminations (new_calls (test_world [test_experiment 1 5] 1)
      (tick_world (ticker_case
         (NewTestMonitor test_Storer [] [never_terminate, always_error ''expired'', always_error ''too many errors''])
         (test_experiment 1 5) (0 :: int) (test_world [test_experiment 1 5] 1) False))))
     = [(1, ''expired''), (1, ''too many errors'')]
   \<and> logged (tick_world (ticker_case
         (NewTestMonitor test_Storer [] [never_terminate, always_error ''expired'', always_error ''too many errors''])
         (test_experiment 1 5) (0 :: int) (test_world [test_experiment 1 5] 1) False))
     = [Errorw ''failed to terminate experiment''
          [(''err'', F_err (errorString ''unavailable'')), (''experimentId'', F_id 1)],
        Errorw ''terminated experiment'' [(''experimentId'', F_id 1)]]"
proof -
  let ?m = "NewTestMonitor test_Storer [] [never_terminate, always_error ''expired'', always_error ''too many errors'']
              :: (test_store, int) monitor"
  let ?w = "test_world [test_experiment 1 5] 1"
  have r: "terminate_results (new_calls ?w (tick_world (ticker_case ?m (test_experiment 1 5) 0 ?w False)))
      = [Some (errorString ''unavailable''), None]"
    by (simp add: NewTestMonitor_def test_Storer_def test_world_def test_experiment_def
        never_terminate_def always_error_def ticker_case_def Let_def new_calls_def)
  have f: "map (\<lambda>err. (1 :: 64 word, Error err))
        (fired (0 :: int) (ptypes_Timestamp (StartTime (test_experiment 1 5))) (test_experiment 1 5) (criterias ?m))
      = [(1, ''expired''), (1, ''too many errors'')]"
    by (simp add: NewTestMonitor_def test_experiment_def never_terminate_def always_error_def)
  have i: "Id' (test_experiment 1 5) = 1" by (simp add: test_experiment_def)
  have l: "logged ?w = []" by (simp add: test_world_def)
  have u: "upto_first_success [Some (errorString ''unavailable''), None] = 2"
    by (simp add: upto_first_success_def)
  from nonnil_error_is_termination_reason [of ?w ?m "test_experiment 1 5" 0]
  have "take 2 (terminations (new_calls ?w (tick_world (ticker_case ?m (test_experiment 1 5) 0 ?w False))))
          = take 2 [(1, ''expired''), (1, ''too many errors'')]
     \<and> logged (tick_world (ticker_case ?m (test_experiment 1 5) 0 ?w False))
          = [] @ map (outcome_line 1) [Some (errorString ''unavailable''), None]"
    by (simp only: i r f l u)
  then have calls_made: "take 2 (terminations (new_calls ?w (tick_world (ticker_case ?m (test_experiment 1 5) 0 ?w False))))
          = [(1, ''expired''), (1, ''too many errors'')]"
    and lines: "logged (tick_world (ticker_case ?m (test_experiment 1 5) 0 ?w False))
          = [Errorw ''failed to terminate experiment''
               [(''err'', F_err (errorString ''unavailable'')), (''experimentId'', F_id 1)],
             Errorw ''terminated experiment'' [(''experimentId'', F_id 1)]]"
    by simp_all
  have first: "upto_first_success (terminate_results (new_calls ?w
      (tick_world (ticker_case ?m (test_experiment 1 5) 0 ?w False)))) = 2"
    by (simp only: r u)
  show ?thesis
    by (intro conjI) (rule first calls_made lines)+
qed

text \<open>
  C1 as stated fails: a criterion returns the error "boom" for a running experiment, and on
  that tick the monitor calls \<^verbatim>\<open>TerminateExperiment(1, "boom")\<close>; the only log line is
  "terminated experiment".
\<close>

theorem error_return_terminates_counterexample:
  "always_error ''boom'' (0 :: int) (ptypes_Timestamp (StartTime (test_experiment 1 5))) (test_experiment 1 5)
     = Returns (Some (errorString ''boom''))
   \<and> calls (snd (monitorSingleExperiment (NewTestMonitor test_Storer [] [always_error ''boom''])
        (test_experiment 1 5) [TickerC (0 :: int)] (test_world [test_experiment 1 5] 0)))
     = [Call_ShouldTerminate 5000000000 (test_experiment 1 5), Call_TerminateExperiment 1 ''boom'' None]
   \<and> logged (snd (monitorSingleExperiment (NewTestMonitor test_Storer [] [always_error ''boom''])
        (test_experiment 1 5) [TickerC (0 :: int)] (test_world [test_experiment 1 5] 0)))
     = [Errorw ''terminated experiment'' [(''experimentId'', F_id 1)]]"
  by (simp add: NewTestMonitor_def test_Storer_def test_world_def test_experiment_def
      always_error_def monitorSingleExperiment_def ticker_case_def Let_def ptypes_Timestamp_def
      time_Unix_def)

text \<open>
  C4, as amended, for one inner loop (one call of \<^verbatim>\<open>monitorSingleExperiment\<close>) run over
  any cases. The "terminations" counter grows by exactly the number of
  \<^verbatim>\<open>TerminateExperiment\<close> calls that succeeded. When at most one criterion returns an error
  on each tick, no call but the last one of the run succeeded: at most one call succeeds and
  none follows it. And while no call has succeeded (the loop not canceled, no criterion
  panicking), the loop has not set \<^verbatim>\<open>terminated\<close> and every tick has made the call of each
  criterion that returned an error on it: a failed call is made again on every later tick on
  which the criterion returns an error.
\<close>

theorem terminate_until_success:
  assumes "monitorSingleExperiment m e cases w = (r, w')"
  shows "terminationCount w' = terminationCount w + int (count_list (terminate_results (new_calls w w')) None)
     \<and> ((\<forall>v \<in> set (ticks cases). length (fired v (ptypes_Timestamp (StartTime e)) e (criterias m)) \<le> 1) \<longrightarrow>
          None \<notin> set (butlast (terminate_results (new_calls w w'))))
     \<and> (CtxDone \<notin> set cases
          \<and> (\<forall>v \<in> set (ticks cases). \<not> list_ex (\<lambda>c. is_Panics (c v (ptypes_Timestamp (StartTime e)) e)) (criterias m))
          \<and> None \<notin> set (terminate_results (new_calls w w')) \<longrightarrow>
            r = Running False
            \<and> terminations (new_calls w w') =
                concat (map (\<lambda>v. map (\<lambda>err. (Id' e, Error err))
                                     (fired v (ptypes_Timestamp (StartTime e)) e (criterias m)))
                            (ticks cases)))"
proof -
  from assms have f: "foldl (monitorSingleExperiment_select m e) (Running False, w) cases = (r, w')"
    by (simp add: monitorSingleExperiment_def)
  then obtain new where p: "select_post m e (Running False) w cases r w' new"
    using run_post by blast
  then have n: "new_calls w w' = new" by (simp add: select_post_def new_calls_append)
  from p n have 1: "terminationCount w' = terminationCount w + int (count_list (terminate_results (new_calls w w')) None)"
    and 2: "(\<forall>v \<in> set (ticks cases). length (fired v (ptypes_Timestamp (StartTime e)) e (criterias m)) \<le> 1) \<longrightarrow>
          None \<notin> set (butlast (terminate_results (new_calls w w')))"
    by (simp_all add: select_post_def)
  have 3: "CtxDone \<notin> set cases
          \<and> (\<forall>v \<in> set (ticks cases). \<not> list_ex (\<lambda>c. is_Panics (c v (ptypes_Timestamp (StartTime e)) e)) (criterias m))
          \<and> None \<notin> set (terminate_results (new_calls w w')) \<longrightarrow>
            r = Running False
            \<and> terminations (new_calls w w') =
                concat (map (\<lambda>v. map (\<lambda>err. (Id' e, Error err))
                                     (fired v (ptypes_Timestamp (StartTime e)) e (criterias m)))
                            (ticks cases))"
    using unterminated_run [OF f] by blast
  from 1 2 3 show ?thesis by blast
qed

text \<open>
  The theorem at one criterion that reads the clock, "expired" once the experiment has run for
  one second, on an experiment started at 5 s and a store that refuses the first call. The tick
  at 5.5 s makes no call; the tick at 6 s makes the call, which fails, and the loop has not
  terminated; the tick at 6.5 s makes the call again, which succeeds; the tick at 7 s does
  nothing.
\<close>

theorem terminate_until_success_witness:
  "fst (monitorSingleExperiment (NewTestMonitor test_Storer [] [expires_after 1000000000])
        (test_experiment 1 5) [TickerC 5500000000, TickerC 6000000000] (test_world [test_experiment 1 5] 1))
     = Running False
   \<and> terminations (new_calls (test_world [test_experiment 1 5] 1)
        (snd (monitorSingleExperiment (NewTestMonitor test_Storer [] [expires_after 1000000000])
        (test_experiment 1 5) [TickerC 5500000000, TickerC 6000000000] (test_world [test_experiment 1 5] 1))))
     = [(1, ''expired'')]
   \<and> terminate_results (new_calls (test_world [test_experiment 1 5] 1)
        (snd (monitorSingleExperiment (NewTestMonitor test_Storer [] [expires_after 1000000000])
        (test_experiment 1 5) [TickerC 5500000000, TickerC 6000000000] (test_world [test_experiment 1 5] 1))))
     = [Some (errorString ''unavailable'')]
   \<and> monitorSingleExperiment (NewTestMonitor test_Storer [] [expires_after 1000000000])
        (test_experiment 1 5) [TickerC 5500000000, TickerC 6000000000, TickerC 6500000000, TickerC 7000000000]
        (test_world [test_experiment 1 5] 1)
      = (Running True,
         \<lparr>store_state = \<lparr>running = [], stopped = [(1, ''expired'')], failures = 0\<rparr>,
          logged = [Errorw ''failed to terminate experiment''
                      [(''err'', F_err (errorString ''unavailable'')), (''experimentId'', F_id 1)],
                    Errorw ''terminated experiment'' [(''experimentId'', F_id 1)]],
          activeMonitoringRoutines = \<lparr>gauge = 0, val = 0\<rparr>,
          terminationCount = 1,
          calls = [Call_ShouldTerminate 5000000000 (test_experiment 1 5),
                   Call_ShouldTerminate 5000000000 (test_experiment 1 5),
                   Call_TerminateExperiment 1 ''expired'' (Some (errorString ''unavailable'')),
                   Call_ShouldTerminate 5000000000 (test_experiment 1 5),
                   Call_TerminateExperiment 1 ''expired'' None]\<rparr>)
   \<and> None \<notin> set (butlast (terminate_results (new_calls (test_world [test_experiment 1 5] 1)
        (snd (monitorSingleExperiment (NewTestMonitor test_Storer [] [expires_after 1000000000])
        (test_experiment 1 5) [TickerC 5500000000, TickerC 6000000000, TickerC 6500000000, TickerC 7000000000]
        (test_world [test_experiment 1 5] 1))))))"
proof -
  let ?m = "NewTestMonitor test_Storer [] [expires_after 1000000000]"
  let ?e = "test_experiment 1 5"
  let ?w = "test_world [test_experiment 1 5] 1"
  let ?two = "[TickerC 5500000000, TickerC 6000000000] :: time select_case list"
  let ?four = "[TickerC 5500000000, TickerC 6000000000, TickerC 6500000000, TickerC 7000000000] :: time select_case list"
  have run2: "monitorSingleExperiment ?m ?e ?two ?w
      = (fst (monitorSingleExperiment ?m ?e ?two ?w), snd (monitorSingleExperiment ?m ?e ?two ?w))"
    by simp
  have run4: "monitorSingleExperiment ?m ?e ?four ?w
      = (fst (monitorSingleExperiment ?m ?e ?four ?w), snd (monitorSingleExperiment ?m ?e ?four ?w))"
    by simp
  have nd: "CtxDone \<notin> set ?two" by simp
  have np: "\<forall>v \<in> set (ticks ?two). \<not> list_ex (\<lambda>c. is_Panics (c v (ptypes_Timestamp (StartTime ?e)) ?e)) (criterias ?m)"
    by (simp add: NewTestMonitor_def expires_after_def)
  have one: "\<forall>v \<in> set (ticks ?four). length (fired v (ptypes_Timestamp (StartTime ?e)) ?e (criterias ?m)) \<le> 1"
    by (simp add: NewTestMonitor_def expires_after_def)
  have results2: "terminate_results (new_calls ?w (snd (monitorSingleExperiment ?m ?e ?two ?w)))
      = [Some (errorString ''unavailable'')]"
    by (simp add: NewTestMonitor_def test_Storer_def test_world_def test_experiment_def
        expires_after_def monitorSingleExperiment_def ticker_case_def Let_def ptypes_Timestamp_def
        time_Unix_def new_calls_def)
  then have ns: "None \<notin> set (terminate_results (new_calls ?w (snd (monitorSingleExperiment ?m ?e ?two ?w))))"
    by simp
  have expected: "concat (map (\<lambda>v. map (\<lambda>err. (Id' ?e, Error err))
                                     (fired v (ptypes_Timestamp (StartTime ?e)) ?e (criterias ?m)))
                            (ticks ?two)) = [(1, ''expired'')]"
    by (simp add: NewTestMonitor_def test_experiment_def expires_after_def ptypes_Timestamp_def
        time_Unix_def)
  from terminate_until_success [OF run2] nd np ns
  have "fst (monitorSingleExperiment ?m ?e ?two ?w) = Running False
     \<and> terminations (new_calls ?w (snd (monitorSingleExperiment ?m ?e ?two ?w))) =
         concat (map (\<lambda>v. map (\<lambda>err. (Id' ?e, Error err))
                                     (fired v (ptypes_Timestamp (StartTime ?e)) ?e (criterias ?m)))
                            (ticks ?two))"
    by blast
  then have unterminated: "fst (monitorSingleExperiment ?m ?e ?two ?w) = Running False"
    and retried: "terminations (new_calls ?w (snd (monitorSingleExperiment ?m ?e ?two ?w))) = [(1, ''expired'')]"
    by (simp_all only: expected)
  have run: "monitorSingleExperiment ?m ?e ?four ?w
      = (Running True,
         \<lparr>store_state = \<lparr>running = [], stopped = [(1, ''expired'')], failures = 0\<rparr>,
          logged = [Errorw ''failed to terminate experiment''
                      [(''err'', F_err (errorString ''unavailable'')), (''experimentId'', F_id 1)],
                    Errorw ''terminated experiment'' [(''experimentId'', F_id 1)]],
          activeMonitoringRoutines = \<lparr>gauge = 0, val = 0\<rparr>,
          terminationCount = 1,
          calls = [Call_ShouldTerminate 5000000000 ?e,
                   Call_ShouldTerminate 5000000000 ?e,
                   Call_TerminateExperiment 1 ''expired'' (Some (errorString ''unavailable'')),
                   Call_ShouldTerminate 5000000000 ?e,
                   Call_TerminateExperiment 1 ''expired'' None]\<rparr>)"
    by (simp add: NewTestMonitor_def test_Storer_def test_world_def test_experiment_def
        expires_after_def monitorSingleExperiment_def ticker_case_def Let_def ptypes_Timestamp_def
        time_Unix_def)
  from terminate_until_success [OF run4] one
  have last: "None \<notin> set (butlast (terminate_results (new_calls ?w
        (snd (monitorSingleExperiment ?m ?e ?four ?w)))))"
    by blast
  show ?thesis
    by (intro conjI) (rule unterminated retried results2 run last)+
qed

text \<open>
  C4 as stated fails: with a criterion that always returns "expired" and a store that refuses
  the first call, \<^verbatim>\<open>TerminateExperiment\<close> is called on the first tick and again on the
  second.
\<close>

theorem terminate_exactly_once_counterexample:
  "terminations (calls (snd (monitorSingleExperiment (NewTestMonitor test_Storer [] [always_error ''expired''])
        (test_experiment 1 5) [TickerC (0 :: int), TickerC 1] (test_world [test_experiment 1 5] 1))))
     = [(1, ''expired''), (1, ''expired'')]
   \<and> terminate_results (calls (snd (monitorSingleExperiment (NewTestMonitor test_Storer [] [always_error ''expired''])
        (test_experiment 1 5) [TickerC (0 :: int), TickerC 1] (test_world [test_experiment 1 5] 1))))
     = [Some (errorString ''unavailable''), None]"
  by (simp add: NewTestMonitor_def test_Storer_def test_world_def test_experiment_def
      always_error_def monitorSingleExperiment_def ticker_case_def Let_def ptypes_Timestamp_def
      time_Unix_def)

text \<open>
  C6 fails where two criteria return an error on one tick and the store accepts the first
  call: the loop over the criteria goes on after the successful call, and on that same tick it
  calls \<^verbatim>\<open>ShouldTerminate\<close> and \<^verbatim>\<open>TerminateExperiment\<close> for the experiment again, logs
  "terminated experiment" twice and counts two terminations.
\<close>

theorem calls_after_success_in_same_tick:
  "monitorSingleExperiment
        (NewTestMonitor test_Storer [] [always_error ''expired'', always_error ''too many errors''])
        (test_experiment 1 5) [TickerC (0 :: int)] (test_world [test_experiment 1 5] 0)
     = (Running True,
        \<lparr>store_state = \<lparr>running = [], stopped = [(1, ''expired''), (1, ''too many errors'')], failures = 0\<rparr>,
         logged = [Errorw ''terminated experiment'' [(''experimentId'', F_id 1)],
                   Errorw ''terminated experiment'' [(''experimentId'', F_id 1)]],
         activeMonitoringRoutines = \<lparr>gauge = 0, val = 0\<rparr>,
         terminationCount = 2,
         calls = [Call_ShouldTerminate 5000000000 (test_experiment 1 5),
                  Call_TerminateExperiment 1 ''expired'' None,
                  Call_ShouldTerminate 5000000000 (test_experiment 1 5),
                  Call_TerminateExperiment 1 ''too many errors'' None]\<rparr>)"
  by (simp add: NewTestMonitor_def test_Storer_def test_world_def test_experiment_def
      always_error_def monitorSingleExperiment_def ticker_case_def Let_def ptypes_Timestamp_def
      time_Unix_def)

section \<open>The monitor: panics, the range variable and the goroutines of an id\<close>

lemma criterias_loop_panics:
  "list_ex (\<lambda>c. is_Panics (c v (ptypes_Timestamp (StartTime e)) e)) cs \<Longrightarrow>
     \<exists>p w'. criterias_loop m e v cs w t = Panicked p w'"
proof (induction cs arbitrary: w t)
  case Nil
  then show ?case by simp
next
  case (Cons c cs)
  show ?case
  proof (cases "c v (ptypes_Timestamp (StartTime e)) e")
    case (Panics p)
    then show ?thesis by (simp add: Let_def)
  next
    case (Returns r)
    with Cons.prems have "list_ex (\<lambda>c. is_Panics (c v (ptypes_Timestamp (StartTime e)) e)) cs"
      by simp
    with Returns Cons.IH show ?thesis
      by (simp add: Let_def split: option.splits prod.splits)
  qed
qed

lemma step_crashed: "crashed s \<Longrightarrow> step m s ev = s"
  by (cases ev) simp_all

lemma run_crashed: "crashed s \<Longrightarrow> run m evs s = s"
  unfolding run_def by (induction evs) (simp_all add: step_crashed)

text \<open>
  C2, as amended. When a criterion panics on a tick of a running inner loop, nothing catches
  the panic: the goroutine leaves \<^verbatim>\<open>monitorSingleExperiment\<close> panicking, its deferred
  \<^verbatim>\<open>dec\<close> of the gauge runs, and the process ends, so that no later event (no tick of any
  inner loop, no tick of the outer loop) changes anything.
\<close>

theorem criterion_panic_ends_process:
  assumes "\<not> crashed s" and "k < length (goroutines s)"
    and "routine_state (goroutines s ! k) = Running False"
    and "list_ex (\<lambda>c. is_Panics (c v (ptypes_Timestamp (StartTime (arg_e (goroutines s ! k))))
                                    (arg_e (goroutines s ! k)))) (criterias m)"
  shows "crashed (step m s (Select k (TickerC v)))
     \<and> is_Panicking (routine_state (goroutines (step m s (Select k (TickerC v))) ! k))
     \<and> activeMonitoringRoutines (world (step m s (Select k (TickerC v))))
         = dec (activeMonitoringRoutines (world s))
     \<and> run m evs (step m s (Select k (TickerC v))) = step m s (Select k (TickerC v))"
proof -
  let ?g = "goroutines s ! k"
  let ?s' = "step m s (Select k (TickerC v))"
  from criterias_loop_panics [OF assms(4), of m "world s" False]
  obtain p w' where l: "criterias_loop m (arg_e ?g) v (criterias m) (world s) False = Panicked p w'"
    by blast
  from criterias_loop_post obtain new where post: "loop_post (arg_e ?g) v (criterias m) (world s) False
       (criterias_loop m (arg_e ?g) v (criterias m) (world s) False) new" ..
  with l have g: "activeMonitoringRoutines w' = activeMonitoringRoutines (world s)"
    by (simp add: loop_post_def)
  from assms(1,2,3) l have s': "?s' = s\<lparr>world := w'\<lparr>activeMonitoringRoutines := dec (activeMonitoringRoutines w')\<rparr>,
       goroutines := (goroutines s)[k := ?g\<lparr>routine_state := Panicking p\<rparr>], crashed := True\<rparr>"
    by (simp add: goroutine_select_def ticker_case_def)
  have c: "crashed ?s'" by (subst s') simp
  from c have "run m evs ?s' = ?s'" by (rule run_crashed)
  moreover have "is_Panicking (routine_state (goroutines ?s' ! k))"
    using assms(2) by (subst s') simp
  moreover have "activeMonitoringRoutines (world ?s') = dec (activeMonitoringRoutines (world s))"
    by (subst s') (simp add: g)
  ultimately show ?thesis using c by blast
qed


text \<open>
  The theorem at the criteria "expired", panic, nil on one experiment: the tick of the inner
  loop ends the process, and a further inner tick and outer tick change nothing.
\<close>

theorem criterion_panic_ends_process_witness:
  "crashed (run (NewTestMonitor test_Storer [] [always_error ''expired'', always_panic, never_terminate])
       [OuterTickerC [], Select 0 (TickerC (0 :: int)), Select 0 (TickerC (0 :: int)), OuterTickerC []]
       (Run (test_world [test_experiment 1 5] 0)))
   \<and> run (NewTestMonitor test_Storer [] [always_error ''expired'', always_panic, never_terminate])
       [OuterTickerC [], Select 0 (TickerC (0 :: int)), Select 0 (TickerC (0 :: int)), OuterTickerC []]
       (Run (test_world [test_experiment 1 5] 0))
     = run (NewTestMonitor test_Storer [] [always_error ''expired'', always_panic, never_terminate])
       [OuterTickerC [], Select 0 (TickerC (0 :: int))] (Run (test_world [test_experiment 1 5] 0))"
proof -
  let ?m = "NewTestMonitor test_Storer [] [always_error ''expired'', always_panic, never_terminate]
              :: (test_store, int) monitor"
  let ?s = "run ?m [OuterTickerC []] (Run (test_world [test_experiment 1 5] 0))"
  have s: "?s = \<lparr>world = (test_world [test_experiment 1 5] 0)\<lparr>activeMonitoringRoutines := \<lparr>gauge = 1, val = 1\<rparr>\<rparr>,
       trackedExperiments = [(1, 0)], canceled = {},
       goroutines = [\<lparr>spawned_for = 1, ctx = 0, arg_e = test_experiment 1 5, routine_state = Running False\<rparr>],
       outer_returned = False, crashed = False\<rparr>"
    by (simp add: NewTestMonitor_def test_Storer_def test_world_def test_experiment_def run_def
        Run_def Run_ticker_case_def monitorNewExperiments_def cancel_inactive_def inc_def
        AddUint32_def Update_def float64_def Let_def)
  have 1: "\<not> crashed ?s" by (simp add: s)
  have 2: "0 < length (goroutines ?s)" by (simp add: s)
  have 3: "routine_state (goroutines ?s ! 0) = Running False" by (simp add: s)
  have 4: "list_ex (\<lambda>c. is_Panics (c (0 :: int) (ptypes_Timestamp (StartTime (arg_e (goroutines ?s ! 0))))
                                  (arg_e (goroutines ?s ! 0)))) (criterias ?m)"
    by (simp add: s) (simp add: NewTestMonitor_def always_error_def always_panic_def
        never_terminate_def)
  have split1: "run ?m [OuterTickerC [], Select 0 (TickerC (0 :: int))] (Run (test_world [test_experiment 1 5] 0))
      = step ?m ?s (Select 0 (TickerC (0 :: int)))"
    by (simp add: run_def)
  have split2: "run ?m [OuterTickerC [], Select 0 (TickerC (0 :: int)), Select 0 (TickerC (0 :: int)), OuterTickerC []]
       (Run (test_world [test_experiment 1 5] 0))
      = run ?m [Select 0 (TickerC (0 :: int)), OuterTickerC []] (step ?m ?s (Select 0 (TickerC (0 :: int))))"
    by (simp add: run_def)
  from criterion_panic_ends_process [OF 1 2 3 4, of "[Select 0 (TickerC (0 :: int)), OuterTickerC []]"]
  show ?thesis by (simp only: split1 split2)
qed

text \<open>
  C2 as stated fails: with one criterion that panics, the first tick of the inner loop leaves
  the goroutine panicking and the process crashed; an experiment that the store returns
  afterwards gets no inner loop.
\<close>

theorem criterion_panic_counterexample:
  "crashed (run (NewTestMonitor test_Storer [] [always_panic])
       [OuterTickerC [], Select 0 (TickerC (0 :: int))] (Run (test_world [test_experiment 1 5] 0)))
   \<and> routine_state (goroutines (run (NewTestMonitor test_Storer [] [always_panic])
       [OuterTickerC [], Select 0 (TickerC (0 :: int))] (Run (test_world [test_experiment 1 5] 0))) ! 0)
     = Panicking ''invalid memory address or nil pointer dereference''
   \<and> goroutines (run (NewTestMonitor test_Storer [] [always_panic])
       [OuterTickerC [], Select 0 (TickerC (0 :: int)),
        StoreChanged (\<lambda>st. st\<lparr>running := [test_experiment 1 5, test_experiment 2 9]\<rparr>), OuterTickerC []]
       (Run (test_world [test_experiment 1 5] 0)))
     = [\<lparr>spawned_for = 1, ctx = 0, arg_e = test_experiment 1 5,
         routine_state = Panicking ''invalid memory address or nil pointer dereference''\<rparr>]"
  by (simp add: NewTestMonitor_def test_Storer_def test_world_def test_experiment_def
      always_panic_def run_def Run_def Run_ticker_case_def monitorNewExperiments_def
      cancel_inactive_def goroutine_select_def inc_def dec_def AddUint32_def Update_def
      float64_def ticker_case_def Let_def)

text \<open>
  What \<^verbatim>\<open>monitorNewExperiments\<close> does hold to: it starts one goroutine for every returned
  id that is not tracked and none for an id that is, each inside
  \<^verbatim>\<open>monitorSingleExperiment\<close> on an experiment of the list; and when every goroutine reads
  the range variable before the loop moves on, on the experiment it was started for.
\<close>

lemma map_of_snoc_None:
  "map_of (xs @ [(k, v)]) i = None \<longleftrightarrow> map_of xs i = None \<and> i \<noteq> k"
  by (auto simp: map_of_eq_None_iff)

lemma monitorNewExperiments_range_spawns:
  "\<exists>new. goroutines (snd (monitorNewExperiments_range sched es act s)) = goroutines s @ new
     \<and> fst (monitorNewExperiments_range sched es act s) = act \<union> Id' ` set es
     \<and> (\<forall>i. length (filter (\<lambda>g. spawned_for g = i) new) =
              (if i \<in> Id' ` set es \<and> map_of (trackedExperiments s) i = None then 1 else 0))
     \<and> (\<forall>g \<in> set new. arg_e g \<in> set es \<and> routine_state g = Running False)
     \<and> (list_all (\<lambda>d. d = 0) sched \<longrightarrow> (\<forall>g \<in> set new. Id' (arg_e g) = spawned_for g))"
proof (induction es arbitrary: sched act s)
  case Nil
  show ?case by (intro exI [of _ "[]"]) simp
next
  case (Cons x es)
  show ?case
  proof (cases "map_of (trackedExperiments s) (Id' x) = None")
    case False
    from Cons.IH [of sched "insert (Id' x) act" s] obtain new where
      n: "goroutines (snd (monitorNewExperiments_range sched es (insert (Id' x) act) s)) = goroutines s @ new
     \<and> fst (monitorNewExperiments_range sched es (insert (Id' x) act) s) = insert (Id' x) act \<union> Id' ` set es
     \<and> (\<forall>i. length (filter (\<lambda>g. spawned_for g = i) new) =
              (if i \<in> Id' ` set es \<and> map_of (trackedExperiments s) i = None then 1 else 0))
     \<and> (\<forall>g \<in> set new. arg_e g \<in> set es \<and> routine_state g = Running False)
     \<and> (list_all (\<lambda>d. d = 0) sched \<longrightarrow> (\<forall>g \<in> set new. Id' (arg_e g) = spawned_for g))"
      by blast
    with False show ?thesis
      by (intro exI [of _ new]) (auto simp: Let_def)
  next
    case True
    let ?c = "length (goroutines s)"
    let ?d = "(case sched of [] \<Rightarrow> 0 | d # ds \<Rightarrow> d)"
    let ?g = "\<lparr>spawned_for = Id' x, ctx = ?c, arg_e = (x # es) ! min ?d (length es), routine_state = Running False\<rparr>"
    let ?s' = "s\<lparr>trackedExperiments := trackedExperiments s @ [(Id' x, ?c)],
                   world := (world s)\<lparr>activeMonitoringRoutines := inc (activeMonitoringRoutines (world s))\<rparr>,
                   goroutines := goroutines s @ [?g]\<rparr>"
    from Cons.IH [of "tl sched" "insert (Id' x) act" ?s'] obtain new where
      n: "goroutines (snd (monitorNewExperiments_range (tl sched) es (insert (Id' x) act) ?s')) = goroutines ?s' @ new
     \<and> fst (monitorNewExperiments_range (tl sched) es (insert (Id' x) act) ?s') = insert (Id' x) act \<union> Id' ` set es
     \<and> (\<forall>i. length (filter (\<lambda>g. spawned_for g = i) new) =
              (if i \<in> Id' ` set es \<and> map_of (trackedExperiments ?s') i = None then 1 else 0))
     \<and> (\<forall>g \<in> set new. arg_e g \<in> set es \<and> routine_state g = Running False)
     \<and> (list_all (\<lambda>d. d = 0) (tl sched) \<longrightarrow> (\<forall>g \<in> set new. Id' (arg_e g) = spawned_for g))"
      by blast
    have mem: "(x # es) ! min ?d (length es) \<in> set (x # es)"
      by (rule nth_mem) simp
    have zero: "list_all (\<lambda>d. d = 0) sched \<Longrightarrow> ?d = 0 \<and> list_all (\<lambda>d. d = 0) (tl sched)"
      by (cases sched) auto
    have run: "monitorNewExperiments_range sched (x # es) act s
                 = monitorNewExperiments_range (tl sched) es (insert (Id' x) act) ?s'"
      using True by (simp add: Let_def)
    from n have g1: "goroutines (snd (monitorNewExperiments_range (tl sched) es (insert (Id' x) act) ?s')) = goroutines s @ ?g # new"
      by simp
    from n have g2: "fst (monitorNewExperiments_range (tl sched) es (insert (Id' x) act) ?s') = act \<union> Id' ` set (x # es)"
      by auto
    from n have cnt: "length (filter (\<lambda>g. spawned_for g = i) new) =
              (if i \<in> Id' ` set es \<and> map_of (trackedExperiments s) i = None \<and> i \<noteq> Id' x then 1 else 0)" for i
      by (simp only: map_of_snoc_None) simp
    have g3: "length (filter (\<lambda>g. spawned_for g = i) (?g # new)) =
              (if i \<in> Id' ` set (x # es) \<and> map_of (trackedExperiments s) i = None then 1 else 0)" for i
    proof (cases "i = Id' x")
      case True
      with \<open>map_of (trackedExperiments s) (Id' x) = None\<close> cnt [of i] show ?thesis by simp
    next
      case False
      with cnt [of i] show ?thesis by simp
    qed
    from n have old: "\<forall>g \<in> set new. arg_e g \<in> set es \<and> routine_state g = Running False"
      by blast
    have g4: "\<forall>g \<in> set (?g # new). arg_e g \<in> set (x # es) \<and> routine_state g = Running False"
      using old mem by auto
    have g5: "list_all (\<lambda>d. d = 0) sched \<longrightarrow> (\<forall>g \<in> set (?g # new). Id' (arg_e g) = spawned_for g)"
    proof
      assume z: "list_all (\<lambda>d. d = 0) sched"
      with zero have "?d = 0" and "list_all (\<lambda>d. d = 0) (tl sched)" by blast+
      with n have "\<forall>g \<in> set new. Id' (arg_e g) = spawned_for g" by blast
      with \<open>?d = 0\<close> show "\<forall>g \<in> set (?g # new). Id' (arg_e g) = spawned_for g" by simp
    qed
    show ?thesis
      unfolding run using g1 g2 g3 g4 g5 by blast
  qed
qed

text \<open>
  C5 fails where the goroutine started for the first of two new experiments reads the range
  variable after the loop has moved on: it is started for id 1, monitors the experiment with
  id 2, evaluates the criterion on that experiment's start time and terminates id 2.
\<close>

theorem captured_range_variable:
  "goroutines (run (NewTestMonitor test_Storer [] [always_error ''expired''])
       [OuterTickerC [1]] (Run (test_world [test_experiment 1 5, test_experiment 2 9] 0)))
     = [\<lparr>spawned_for = 1, ctx = 0, arg_e = test_experiment 2 9, routine_state = Running False\<rparr>,
        \<lparr>spawned_for = 2, ctx = 1, arg_e = test_experiment 2 9, routine_state = Running False\<rparr>]
   \<and> calls (world (run (NewTestMonitor test_Storer [] [always_error ''expired''])
       [OuterTickerC [1], Select 0 (TickerC (0 :: int))] (Run (test_world [test_experiment 1 5, test_experiment 2 9] 0))))
     = [Call_ShouldTerminate 9000000000 (test_experiment 2 9),
        Call_TerminateExperiment 2 ''expired'' None]"
  by (simp add: NewTestMonitor_def test_Storer_def test_world_def test_experiment_def
      always_error_def run_def Run_def Run_ticker_case_def monitorNewExperiments_def
      cancel_inactive_def inc_def AddUint32_def Update_def float64_def Let_def
      goroutine_select_def ticker_case_def ptypes_Timestamp_def time_Unix_def)

text \<open>
  C7, as amended. At every moment of every run, for every id, at most one goroutine that was
  started for the id is inside \<^verbatim>\<open>monitorSingleExperiment\<close> with a context that has not
  been canceled.
\<close>

theorem at_most_one_uncanceled_inner_loop:
  "length (live_uncanceled_for i (run m evs (Run w))) \<le> 1"
  by (intro tracking_inv_at_most_one tracking_inv_run tracking_inv_Run)

text \<open>
  The theorem on the run of the counterexample below: of the two goroutines for id 1, one has
  a context that is not canceled.
\<close>

theorem at_most_one_uncanceled_inner_loop_witness:
  "length (live_uncanceled_for 1 (run (NewTestMonitor test_Storer [] [never_terminate])
       [OuterTickerC [],
        StoreChanged (\<lambda>st. st\<lparr>running := []\<rparr>), OuterTickerC [],
        StoreChanged (\<lambda>st. st\<lparr>running := [test_experiment 1 5]\<rparr>), OuterTickerC []]
       (Run (test_world [test_experiment 1 5] 0)))) = 1"
  using at_most_one_uncanceled_inner_loop [of 1 "NewTestMonitor test_Storer [] [never_terminate]"
       "[OuterTickerC [],
        StoreChanged (\<lambda>st. st\<lparr>running := []\<rparr>), OuterTickerC [],
        StoreChanged (\<lambda>st. st\<lparr>running := [test_experiment 1 5]\<rparr>), OuterTickerC []]"
       "test_world [test_experiment 1 5] 0"]
  by (simp add: NewTestMonitor_def test_Storer_def test_world_def test_experiment_def run_def
      Run_def Run_ticker_case_def monitorNewExperiments_def cancel_inactive_def inc_def
      AddUint32_def Update_def float64_def Let_def live_uncanceled_for_def)

text \<open>
  C7 as stated fails: id 1 is returned, then missing, then returned again. The first
  goroutine's context is canceled, but it has not yet taken \<^verbatim>\<open><-ctx.Done()\<close> when the
  second goroutine is started, and both are inside \<^verbatim>\<open>monitorSingleExperiment\<close>.
\<close>

theorem two_live_inner_loops_counterexample:
  "length (live_for 1 (run (NewTestMonitor test_Storer [] [never_terminate])
       [OuterTickerC [],
        StoreChanged (\<lambda>st. st\<lparr>running := []\<rparr>), OuterTickerC [],
        StoreChanged (\<lambda>st. st\<lparr>running := [test_experiment 1 5]\<rparr>), OuterTickerC []]
       (Run (test_world [test_experiment 1 5] 0)))) = 2"
  by (simp add: NewTestMonitor_def test_Storer_def test_world_def test_experiment_def run_def
      Run_def Run_ticker_case_def monitorNewExperiments_def cancel_inactive_def inc_def
      AddUint32_def Update_def float64_def Let_def live_for_def)

section \<open>Properties of the discovery server\<close>




text \<open>
  C8. A request with an \<^verbatim>\<open>error_detail\<close> increments the "errors received" counter of the
  stream's protocol version and no other, leaves \<^verbatim>\<open>last_acked_version\<close> alone, emits no
  response, leaves the "resources served" counter alone and returns the stream to idle.
\<close>

theorem nack_counts_error_only:
  assumes "ErrorDetail req \<noteq> None"
  shows "totalErrorsReceived (recv req st) (proto st) = totalErrorsReceived st (proto st) + 1
     \<and> (\<forall>p. p \<noteq> proto st \<longrightarrow> totalErrorsReceived (recv req st) p = totalErrorsReceived st p)
     \<and> last_acked_version (recv req st) = last_acked_version st
     \<and> emitted (recv req st) = emitted st
     \<and> totalResourcesServed (recv req st) = totalResourcesServed st
     \<and> state (recv req st) = Idle"
  using assms by (simp add: recv_def)

text \<open>
  The theorem on the requests of \<^verbatim>\<open>TestServerStats\<close>: after the first request and its
  response the counters are 1 and 0; after the request with an error detail they are 1 and 1,
  and there is still one response.
\<close>

theorem nack_counts_error_only_witness:
  "ErrorDetail (request None None (Some \<lparr>Code = 0, Message = []\<rparr>)) \<noteq> None
   \<and> totalResourcesServed (stream_run [Recv (request None None None)]
        (open_stream \<lparr>layer_name = ''tests'', resource_ttl = None, heartbeat_interval = None\<rparr> V3 (test_snapshot 1))) V3 = 1
   \<and> totalErrorsReceived (stream_run [Recv (request None None None)]
        (open_stream \<lparr>layer_name = ''tests'', resource_ttl = None, heartbeat_interval = None\<rparr> V3 (test_snapshot 1))) V3 = 0
   \<and> totalResourcesServed (recv (request None None (Some \<lparr>Code = 0, Message = []\<rparr>))
        (stream_run [Recv (request None None None)]
        (open_stream \<lparr>layer_name = ''tests'', resource_ttl = None, heartbeat_interval = None\<rparr> V3 (test_snapshot 1)))) V3 = 1
   \<and> totalErrorsReceived (recv (request None None (Some \<lparr>Code = 0, Message = []\<rparr>))
        (stream_run [Recv (request None None None)]
        (open_stream \<lparr>layer_name = ''tests'', resource_ttl = None, heartbeat_interval = None\<rparr> V3 (test_snapshot 1)))) V3 = 1
   \<and> length (emitted (recv (request None None (Some \<lparr>Code = 0, Message = []\<rparr>))
        (stream_run [Recv (request None None None)]
        (open_stream \<lparr>layer_name = ''tests'', resource_ttl = None, heartbeat_interval = None\<rparr> V3 (test_snapshot 1))))) = 1"
proof -
  let ?st = "stream_run [Recv (request None None None)]
        (open_stream \<lparr>layer_name = ''tests'', resource_ttl = None, heartbeat_interval = None\<rparr> V3 (test_snapshot 1))"
  let ?nack = "request None None (Some \<lparr>Code = 0, Message = []\<rparr>)"
  have h: "ErrorDetail ?nack \<noteq> None" by (simp add: request_def)
  have p: "proto ?st = V3" and s: "totalResourcesServed ?st V3 = 1" and e: "totalErrorsReceived ?st V3 = 0"
    and l: "length (emitted ?st) = 1"
    by (simp_all add: open_stream_def test_snapshot_def request_def stream_run_def recv_def
        push_def heartbeat_def emit_def Let_def)
  from nack_counts_error_only [OF h, of ?st] h p s e l show ?thesis by simp
qed

lemma ttl_responses_snoc:
  "ttl_responses d cur (rs @ [r]) =
     (ttl_responses d cur rs
      \<and> list_all (\<lambda>x. Ttl x = Some d) (Resources r)
      \<and> (case kind r of
           Content \<Rightarrow> list_all (\<lambda>x. Resource x \<noteq> None) (Resources r)
         | Heartbeat \<Rightarrow> list_all (\<lambda>x. Resource x = None) (Resources r)
                         \<and> current_version cur rs = Some (response_VersionInfo r)))"
  by (induction rs arbitrary: cur) (auto split: response_kind.splits)

lemma current_version_snoc:
  "current_version cur (rs @ [r]) =
     (case kind r of Content \<Rightarrow> Some (response_VersionInfo r) | Heartbeat \<Rightarrow> current_version cur rs)"
  by (induction rs arbitrary: cur) (auto split: response_kind.splits)

lemma ttl_inv_push: "ttl_inv d st \<Longrightarrow> ttl_inv d (push st)"
  by (auto simp: ttl_inv_def push_def emit_def Let_def ttl_responses_snoc current_version_snoc
        list_all_iff split: prod.splits)

lemma ttl_inv_heartbeat: "ttl_inv d st \<Longrightarrow> ttl_inv d (heartbeat st)"
  by (auto simp: ttl_inv_def heartbeat_def emit_def ttl_responses_snoc current_version_snoc
        list_all_iff split: option.splits)

lemma ttl_inv_recv: "ttl_inv d st \<Longrightarrow> ttl_inv d (recv req st)"
proof -
  assume i: "ttl_inv d st"
  then have "ttl_inv d (st\<lparr>subscribed := True\<rparr>)" by (simp add: ttl_inv_def)
  then have "ttl_inv d (push (st\<lparr>subscribed := True\<rparr>))" by (rule ttl_inv_push)
  with i show ?thesis by (simp add: recv_def) (simp add: ttl_inv_def)
qed

lemma ttl_inv_step: "ttl_inv d st \<Longrightarrow> ttl_inv d (stream_step st ev)"
proof (cases ev)
  case (Recv req)
  assume "ttl_inv d st"
  with Recv show ?thesis by (simp add: ttl_inv_recv)
next
  case (SetSnapshot snap)
  assume i: "ttl_inv d st"
  then have "ttl_inv d (st\<lparr>snapshot := snap\<rparr>)" by (simp add: ttl_inv_def)
  then have "ttl_inv d (push (st\<lparr>snapshot := snap\<rparr>))" by (rule ttl_inv_push)
  with i SetSnapshot show ?thesis by simp
next
  case Notified
  assume "ttl_inv d st"
  with Notified show ?thesis by (simp add: ttl_inv_push)
next
  case HeartbeatElapsed
  assume "ttl_inv d st"
  with HeartbeatElapsed show ?thesis by (simp add: ttl_inv_heartbeat)
next
  case NonceExpired
  assume "ttl_inv d st"
  with NonceExpired show ?thesis by (simp add: ttl_inv_def)
qed

lemma ttl_inv_run: "ttl_inv d st \<Longrightarrow> ttl_inv d (stream_run evs st)"
  unfolding stream_run_def by (induction evs arbitrary: st) (simp_all add: ttl_inv_step)

text \<open>
  C9. In TTL mode, whatever happens on a stream, every resource of every response emitted
  carries the configured TTL; a content response has a body in every resource; a heartbeat
  has no body and carries the version of the last content response.
\<close>

theorem every_resource_carries_ttl:
  assumes "resource_ttl md = Some d"
  shows "ttl_responses d None (emitted (stream_run evs (open_stream md p snap)))"
proof -
  from assms have "ttl_inv d (open_stream md p snap)"
    by (simp add: ttl_inv_def open_stream_def)
  then have "ttl_inv d (stream_run evs (open_stream md p snap))" by (rule ttl_inv_run)
  then show ?thesis by (simp add: ttl_inv_def)
qed

text \<open>
  The theorem on the exchange of \<^verbatim>\<open>TestResourceTTL\<close>: request, response, acknowledgement,
  heartbeat.
\<close>

theorem every_resource_carries_ttl_witness:
  "ResourceTtl (newTestServer_config True) = Some \<lparr>Seconds = 1, Nanos = 0\<rparr>
   \<and> emitted (stream_run [Recv (request None None None), Recv (request (Some 1) (Some 1) None), HeartbeatElapsed]
        (open_stream \<lparr>layer_name = ''tests'', resource_ttl = Some \<lparr>Seconds = 1, Nanos = 0\<rparr>,
            heartbeat_interval = Some \<lparr>Seconds = 1, Nanos = 0\<rparr>\<rparr> V3 (test_snapshot 1)))
     = [\<lparr>response_VersionInfo = 1, Nonce = 1,
         Resources = [\<lparr>Name = ''tests'', Ttl = Some \<lparr>Seconds = 1, Nanos = 0\<rparr>,
                       Resource = Some \<lparr>TypeUrl = ''type.googleapis.com/envoy.service.runtime.v3.Runtime'', Value = []\<rparr>\<rparr>],
         kind = Content\<rparr>,
        \<lparr>response_VersionInfo = 1, Nonce = 1,
         Resources = [\<lparr>Name = ''tests'', Ttl = Some \<lparr>Seconds = 1, Nanos = 0\<rparr>, Resource = None\<rparr>],
         kind = Heartbeat\<rparr>]
   \<and> ttl_responses \<lparr>Seconds = 1, Nanos = 0\<rparr> None
       (emitted (stream_run [Recv (request None None None), Recv (request (Some 1) (Some 1) None), HeartbeatElapsed]
        (open_stream \<lparr>layer_name = ''tests'', resource_ttl = Some \<lparr>Seconds = 1, Nanos = 0\<rparr>,
            heartbeat_interval = Some \<lparr>Seconds = 1, Nanos = 0\<rparr>\<rparr> V3 (test_snapshot 1))))"
proof -
  let ?md = "\<lparr>layer_name = ''tests'', resource_ttl = Some \<lparr>Seconds = 1, Nanos = 0\<rparr>,
            heartbeat_interval = Some \<lparr>Seconds = 1, Nanos = 0\<rparr>\<rparr>"
  have t: "resource_ttl ?md = Some \<lparr>Seconds = 1, Nanos = 0\<rparr>" by simp
  have n: "ResourceTtl (newTestServer_config True) = Some \<lparr>Seconds = 1, Nanos = 0\<rparr>"
    by (simp add: newTestServer_config_def)
  have e: "emitted (stream_run [Recv (request None None None), Recv (request (Some 1) (Some 1) None), HeartbeatElapsed]
        (open_stream ?md V3 (test_snapshot 1)))
     = [\<lparr>response_VersionInfo = 1, Nonce = 1,
         Resources = [\<lparr>Name = ''tests'', Ttl = Some \<lparr>Seconds = 1, Nanos = 0\<rparr>,
                       Resource = Some \<lparr>TypeUrl = ''type.googleapis.com/envoy.service.runtime.v3.Runtime'', Value = []\<rparr>\<rparr>],
         kind = Content\<rparr>,
        \<lparr>response_VersionInfo = 1, Nonce = 1,
         Resources = [\<lparr>Name = ''tests'', Ttl = Some \<lparr>Seconds = 1, Nanos = 0\<rparr>, Resource = None\<rparr>],
         kind = Heartbeat\<rparr>]"
    by (simp add: open_stream_def test_snapshot_def request_def stream_run_def recv_def push_def
        heartbeat_def emit_def Let_def)
  from every_resource_carries_ttl [OF t, of "[Recv (request None None None), Recv (request (Some 1) (Some 1) None), HeartbeatElapsed]" V3 "test_snapshot 1"]
    n e show ?thesis by simp
qed

end
